theory Spec2Isabelle
  imports Complex_Main "HOL-Library.Log_Nat"
begin

section \<open>IEEE 754 binary64 values, as the C++ type double\<close>

text \<open>
  A double is a NaN, one of the two infinities, the negative zero, or a finite real
  (\<open>Fin 0\<close> is the positive zero). Every arithmetic operation computes the exact real
  result and rounds it to the nearest binary64 value, ties to the even significand,
  with gradual underflow and overflow to infinity.
\<close>

datatype double = NaN | PInf | NInf | NZero | Fin real

definition pow2 :: "int \<Rightarrow> real" where
  "pow2 k = (if 0 \<le> k then 2 ^ nat k else 1 / 2 ^ nat (- k))"

text \<open>The binary exponent \<open>\<lfloor>log\<^sub>2 r\<rfloor>\<close> of a positive real, from bit lengths.\<close>

definition expo :: "real \<Rightarrow> int" where
  "expo r = (if 1 \<le> r then bitlen \<lfloor>r\<rfloor> - 1 else - bitlen (\<lceil>1 / r\<rceil> - 1))"

text \<open>
  Rounding a real to the nearest integer, ties to even. The floor is passed along, so
  that it is computed once.
\<close>

definition nearest_even :: "int \<Rightarrow> real \<Rightarrow> int" where
  "nearest_even f d =
     (if d < 1 / 2 then f
      else if 1 / 2 < d then f + 1
      else if even f then f else f + 1)"

definition frac_part :: "int \<Rightarrow> real \<Rightarrow> real" where
  "frac_part f r = r - of_int f"

definition round_floor :: "int \<Rightarrow> real \<Rightarrow> int" where
  "round_floor f r = nearest_even f (frac_part f r)"

definition round_even :: "real \<Rightarrow> int" where
  "round_even r = round_floor \<lfloor>r\<rfloor> r"

text \<open>
  Rounding a positive real: 53 significant bits, the smallest exponent of a normal
  number is -1022 (below it the spacing stays \<open>2\<^sup>-\<^sup>1\<^sup>0\<^sup>7\<^sup>4\<close>), and a rounded value of
  \<open>2\<^sup>1\<^sup>0\<^sup>2\<^sup>4\<close> or more is an overflow.
\<close>

text \<open>\<open>round_to q r\<close> is the multiple of the spacing \<open>q\<close> nearest to \<open>r\<close>.\<close>

definition round_to :: "real \<Rightarrow> real \<Rightarrow> real" where
  "round_to q r = of_int (round_even (r / q)) * q"

definition overflow :: "real \<Rightarrow> double" where
  "overflow v = (if pow2 1024 \<le> v then PInf else Fin v)"

definition round_pos :: "real \<Rightarrow> double" where
  "round_pos r = overflow (round_to (pow2 (max (expo r) (- 1022) - 52)) r)"

text \<open>Negation flips the sign, of a zero too.\<close>

fun dneg :: "double \<Rightarrow> double" where
  "dneg NaN = NaN"
| "dneg PInf = NInf"
| "dneg NInf = PInf"
| "dneg NZero = Fin 0"
| "dneg (Fin r) = (if r = 0 then NZero else Fin (- r))"

text \<open>Rounding a real; an exact zero is the positive zero, a negative underflow the negative one.\<close>

definition rnd :: "real \<Rightarrow> double" where
  "rnd r = (if r = 0 then Fin 0
            else if 0 < r then round_pos r
            else dneg (round_pos (- r)))"

fun signbit :: "double \<Rightarrow> bool" where
  "signbit NaN = False"
| "signbit PInf = False"
| "signbit NInf = True"
| "signbit NZero = True"
| "signbit (Fin r) = (r < 0)"

fun is_nan :: "double \<Rightarrow> bool" where
  "is_nan NaN = True"
| "is_nan _ = False"

fun is_inf :: "double \<Rightarrow> bool" where
  "is_inf PInf = True"
| "is_inf NInf = True"
| "is_inf _ = False"

text \<open>The real value of a finite double (0 for the others).\<close>

fun val :: "double \<Rightarrow> real" where
  "val (Fin r) = r"
| "val _ = 0"

definition is_zero :: "double \<Rightarrow> bool" where
  "is_zero d = (\<not> is_nan d \<and> \<not> is_inf d \<and> val d = 0)"

definition with_sign :: "bool \<Rightarrow> double \<Rightarrow> double" where
  "with_sign s d = (if s then dneg d else d)"

text \<open>
  Addition: a NaN spreads, opposite infinities give a NaN, an infinity absorbs, the
  negative zero is neutral, and a sum that is exactly zero is the positive zero.
  Subtraction adds the negation.
\<close>

fun dadd :: "double \<Rightarrow> double \<Rightarrow> double" where
  "dadd NaN _ = NaN"
| "dadd _ NaN = NaN"
| "dadd PInf NInf = NaN"
| "dadd NInf PInf = NaN"
| "dadd PInf _ = PInf"
| "dadd _ PInf = PInf"
| "dadd NInf _ = NInf"
| "dadd _ NInf = NInf"
| "dadd NZero d = d"
| "dadd d NZero = d"
| "dadd (Fin r) (Fin s) = rnd (r + s)"

definition dsub :: "double \<Rightarrow> double \<Rightarrow> double" where
  "dsub d e = dadd d (dneg e)"

text \<open>
  Multiplication and division: the sign is the exclusive or of the signs;
  \<open>\<infinity> * 0\<close>, \<open>\<infinity> / \<infinity>\<close> and \<open>0 / 0\<close> are NaN; a division by a zero is an infinity, a
  division by an infinity a zero.
\<close>

definition dmul :: "double \<Rightarrow> double \<Rightarrow> double" where
  "dmul d e =
     (if is_nan d \<or> is_nan e then NaN
      else if (is_inf d \<and> is_zero e) \<or> (is_zero d \<and> is_inf e) then NaN
      else with_sign (signbit d \<noteq> signbit e)
             (if is_inf d \<or> is_inf e then PInf else rnd (\<bar>val d\<bar> * \<bar>val e\<bar>)))"

definition ddiv :: "double \<Rightarrow> double \<Rightarrow> double" where
  "ddiv d e =
     (if is_nan d \<or> is_nan e then NaN
      else if (is_inf d \<and> is_inf e) \<or> (is_zero d \<and> is_zero e) then NaN
      else with_sign (signbit d \<noteq> signbit e)
             (if is_inf d \<or> is_zero e then PInf
              else if is_inf e then Fin 0
              else rnd (\<bar>val d\<bar> / \<bar>val e\<bar>)))"

fun dfabs :: "double \<Rightarrow> double" where
  "dfabs NaN = NaN"
| "dfabs PInf = PInf"
| "dfabs NInf = PInf"
| "dfabs NZero = Fin 0"
| "dfabs (Fin r) = Fin \<bar>r\<bar>"

text \<open>Comparisons: every comparison with a NaN is false, and the two zeros are equal.\<close>

fun dlt :: "double \<Rightarrow> double \<Rightarrow> bool" where
  "dlt NaN _ = False"
| "dlt _ NaN = False"
| "dlt PInf _ = False"
| "dlt _ NInf = False"
| "dlt NInf _ = True"
| "dlt _ PInf = True"
| "dlt d e = (val d < val e)"

fun deq :: "double \<Rightarrow> double \<Rightarrow> bool" where
  "deq NaN _ = False"
| "deq _ NaN = False"
| "deq PInf e = (e = PInf)"
| "deq NInf e = (e = NInf)"
| "deq d PInf = False"
| "deq d NInf = False"
| "deq d e = (val d = val e)"

definition dle :: "double \<Rightarrow> double \<Rightarrow> bool" where
  "dle d e = (dlt d e \<or> deq d e)"

definition dgt :: "double \<Rightarrow> double \<Rightarrow> bool" where
  "dgt d e = dlt e d"

definition dge :: "double \<Rightarrow> double \<Rightarrow> bool" where
  "dge d e = dle e d"

definition dne :: "double \<Rightarrow> double \<Rightarrow> bool" where
  "dne d e = (\<not> deq d e)"

text \<open>\<open>std::min(a, b)\<close> is \<open>(b < a) ? b : a\<close>.\<close>

definition dmin :: "double \<Rightarrow> double \<Rightarrow> double" where
  "dmin d e = (if dlt e d then e else d)"

text \<open>\<open>std::numeric_limits<double>::epsilon()\<close> is \<open>2\<^sup>-\<^sup>5\<^sup>2\<close>.\<close>

definition epsilon :: double where
  "epsilon = Fin (pow2 (- 52))"

section \<open>Geometric primitives (geometry.h, geometry.cpp)\<close>

text \<open>
  The classes of geometry.h as records. The fields \<open>x\<close>, \<open>y\<close> of a point, \<open>a\<close>, \<open>b\<close> of
  an edge and \<open>a\<close>, \<open>b\<close>, \<open>c\<close> of a triangle carry the class as a prefix, since a record
  field is a constant of the theory.
\<close>

record point =
  px :: double
  py :: double

record edge =
  ea :: point
  eb :: point

record circle =
  center :: point
  radius :: double

record triangle =
  ta :: point
  tb :: point
  tc :: point

definition mk_point :: "double \<Rightarrow> double \<Rightarrow> point" where
  "mk_point u v = \<lparr>px = u, py = v\<rparr>"

definition mk_edge :: "point \<Rightarrow> point \<Rightarrow> edge" where
  "mk_edge p q = \<lparr>ea = p, eb = q\<rparr>"

definition mk_circle :: "point \<Rightarrow> double \<Rightarrow> circle" where
  "mk_circle p r = \<lparr>center = p, radius = r\<rparr>"

definition mk_triangle :: "point \<Rightarrow> point \<Rightarrow> point \<Rightarrow> triangle" where
  "mk_triangle p q r = \<lparr>ta = p, tb = q, tc = r\<rparr>"

text \<open>\<open>point::operator==\<close>\<close>

definition point_eq :: "point \<Rightarrow> point \<Rightarrow> bool" where
  "point_eq p other =
     (if deq (px p) (px other) \<and> deq (py p) (py other) then True
      else dle (dfabs (dsub (px p) (px other))) epsilon
         \<and> dle (dfabs (dsub (py p) (py other))) epsilon)"

text \<open>\<open>point::finite\<close>\<close>

definition finite_pt :: "point \<Rightarrow> bool" where
  "finite_pt p = (dne (dfabs (px p)) PInf \<and> dne (dfabs (py p)) PInf)"

text \<open>\<open>point::slope\<close>\<close>

definition slope :: "point \<Rightarrow> point \<Rightarrow> double" where
  "slope p q =
     (if deq (dsub (px p) (px q)) (Fin 0) then PInf
      else ddiv (dsub (py p) (py q)) (dsub (px p) (px q)))"

text \<open>\<open>point::midpoint\<close>\<close>

definition midpoint :: "point \<Rightarrow> point \<Rightarrow> point" where
  "midpoint p q =
     mk_point (ddiv (dadd (px p) (px q)) (Fin 2)) (ddiv (dadd (py p) (py q)) (Fin 2))"

text \<open>\<open>point::distance_squared\<close>: the receiver is the first argument.\<close>

definition distance_squared :: "point \<Rightarrow> point \<Rightarrow> double" where
  "distance_squared p q =
     (let dx = dsub (px p) (px q);
          dy = dsub (py p) (py q)
      in dadd (dmul dx dx) (dmul dy dy))"

text \<open>\<open>circle::contains\<close> compares with the radius field itself.\<close>

definition contains :: "circle \<Rightarrow> point \<Rightarrow> bool" where
  "contains k p =
     (let dx = dsub (px p) (px (center k));
          dy = dsub (py p) (py (center k));
          dist = dadd (dmul dx dx) (dmul dy dy)
      in dlt dist (radius k))"

text \<open>\<open>circle::infinite\<close>\<close>

definition infinite_circle :: "circle \<Rightarrow> bool" where
  "infinite_circle k = deq (radius k) PInf"

text \<open>\<open>triangle::valid\<close>\<close>

definition area :: "triangle \<Rightarrow> double" where
  "area t =
     ddiv (dsub (dmul (dsub (px (tb t)) (px (ta t))) (dsub (py (tc t)) (py (ta t))))
                (dmul (dsub (px (tc t)) (px (ta t))) (dsub (py (tb t)) (py (ta t)))))
          (Fin 2)"

definition valid :: "triangle \<Rightarrow> bool" where
  "valid t =
     (if \<not> finite_pt (ta t) then False
      else if \<not> finite_pt (tb t) then False
      else if \<not> finite_pt (tc t) then False
      else dgt (dfabs (area t)) epsilon)"

text \<open>\<open>triangle::has_vertex\<close>\<close>

definition has_vertex :: "triangle \<Rightarrow> point \<Rightarrow> bool" where
  "has_vertex t p = (point_eq (ta t) p \<or> point_eq (tb t) p \<or> point_eq (tc t) p)"

text \<open>
  \<open>triangle::circumcircle\<close>. The first bisector is replaced when the edge a-b is
  horizontal, otherwise the second one when the edge b-c is. The locals \<open>x\<close>, \<open>y\<close>,
  \<open>center\<close> and \<open>radius\<close> of the source are \<open>u\<close>, \<open>v\<close>, \<open>k\<close> and \<open>r\<close> here.
\<close>

definition circumcircle :: "triangle \<Rightarrow> circle" where
  "circumcircle t =
     (if \<not> valid t then mk_circle (mk_point (Fin 0) (Fin 0)) PInf
      else
        let slope_ab = slope (ta t) (tb t);
            slope_bc = slope (tb t) (tc t);
            slope_ac = slope (ta t) (tc t);
            first_replaced = deq slope_ab (Fin 0);
            second_replaced = (\<not> first_replaced \<and> deq slope_bc (Fin 0));
            midpoint_1 = (if first_replaced then midpoint (ta t) (tc t)
                          else midpoint (ta t) (tb t));
            slope_1 = (if first_replaced then slope_ac else slope_ab);
            midpoint_2 = (if second_replaced then midpoint (ta t) (tc t)
                          else midpoint (tb t) (tc t));
            slope_2 = (if second_replaced then slope_ac else slope_bc);
            m1 = ddiv (Fin (- 1)) slope_1;
            m2 = ddiv (Fin (- 1)) slope_2;
            b1 = dsub (py midpoint_1) (dmul m1 (px midpoint_1));
            b2 = dsub (py midpoint_2) (dmul m2 (px midpoint_2));
            u = ddiv (dsub b2 b1) (dsub m1 m2);
            v = dadd (dmul m1 u) b1;
            k = mk_point u v;
            r = dmin (dmin (distance_squared (ta t) k) (distance_squared (tb t) k))
                     (distance_squared (tc t) k)
        in mk_circle k r)"

text \<open>\<open>triangle::edges\<close> and \<open>triangle::has_edge\<close>\<close>

definition edges :: "triangle \<Rightarrow> edge list" where
  "edges t = [mk_edge (ta t) (tb t), mk_edge (tb t) (tc t), mk_edge (ta t) (tc t)]"

definition same_edge :: "edge \<Rightarrow> edge \<Rightarrow> bool" where
  "same_edge v e =
     ((point_eq (ea v) (ea e) \<and> point_eq (eb v) (eb e))
    \<or> (point_eq (ea v) (eb e) \<and> point_eq (eb v) (ea e)))"

definition has_edge :: "triangle \<Rightarrow> edge \<Rightarrow> bool" where
  "has_edge t e = list_ex (\<lambda>v. same_edge v e) (edges t)"

text \<open>\<open>triangle::operator==\<close>\<close>

definition triangle_eq :: "triangle \<Rightarrow> triangle \<Rightarrow> bool" where
  "triangle_eq t other =
     (point_eq (ta t) (ta other) \<and> point_eq (tb t) (tb other) \<and> point_eq (tc t) (tc other))"

section \<open>The triangulation (delaunay.cpp)\<close>

text \<open>\<open>delaunay::super_triangle\<close>: the three symbolic vertices at infinity.\<close>

definition super_triangle :: triangle where
  "super_triangle = mk_triangle (mk_point NInf NInf) (mk_point (Fin 0) PInf) (mk_point PInf (Fin 0))"

text \<open>
  \<open>delaunay::halfplane_contains\<close>. The locals \<open>f\<close>, \<open>v1\<close>, \<open>v2\<close> are default-constructed
  points, the origin, before the chain of tests assigns them.
\<close>

definition origin :: point where
  "origin = mk_point (Fin 0) (Fin 0)"

text \<open>Case 2 of the source, two infinite vertices \<open>v1\<close>, \<open>v2\<close> and the finite vertex \<open>f\<close>.\<close>

definition halfplane_two_infinite :: "point \<Rightarrow> point \<Rightarrow> point \<Rightarrow> point \<Rightarrow> bool" where
  "halfplane_two_infinite f v1 v2 p =
     (if deq (py v1) PInf \<or> deq (py v2) PInf
      then (if deq (px v1) PInf \<or> deq (px v2) PInf
            then dgt (dadd (py p) (px p)) (dadd (py f) (px f))
            else dgt (dsub (py p) (dmul (Fin 3) (px p))) (dsub (py f) (dmul (Fin 3) (px f))))
      else dlt (dsub (py p) (ddiv (px p) (Fin 3))) (dsub (py f) (ddiv (px f) (Fin 3))))"

text \<open>One infinite vertex \<open>f\<close> and the finite vertices \<open>v1\<close>, \<open>v2\<close>.\<close>

definition halfplane_one_infinite :: "point \<Rightarrow> point \<Rightarrow> point \<Rightarrow> point \<Rightarrow> bool" where
  "halfplane_one_infinite f v1 v2 p =
     (let m = slope v1 v2;
          b = dsub (py v1) (dmul m (px v1))
      in if deq (py f) PInf then dgt (dsub (py p) (dmul m (px p))) b
         else if deq (px f) PInf
         then (if dge m (Fin 0) then dlt (dsub (py p) (dmul m (px p))) b
               else dgt (dsub (py p) (dmul m (px p))) b)
         else (if dge m (Fin 1) then dgt (dsub (py p) (dmul m (px p))) b
               else dlt (dsub (py p) (dmul m (px p))) b))"

definition finite_points :: "triangle \<Rightarrow> nat" where
  "finite_points t =
     of_bool (finite_pt (ta t)) + of_bool (finite_pt (tb t)) + of_bool (finite_pt (tc t))"

definition halfplane_contains :: "triangle \<Rightarrow> point \<Rightarrow> bool" where
  "halfplane_contains t p =
     (if finite_points t = 0 then True
      else if finite_points t = 1
      then (if finite_pt (ta t) then halfplane_two_infinite (ta t) (tb t) (tc t) p
            else if finite_pt (tb t) then halfplane_two_infinite (tb t) (ta t) (tc t) p
            else if finite_pt (tc t) then halfplane_two_infinite (tc t) (ta t) (tb t) p
            else halfplane_two_infinite origin origin origin p)
      else if finite_points t = 2
      then (if \<not> finite_pt (ta t) then halfplane_one_infinite (ta t) (tb t) (tc t) p
            else if \<not> finite_pt (tb t) then halfplane_one_infinite (tb t) (ta t) (tc t) p
            else if \<not> finite_pt (tc t) then halfplane_one_infinite (tc t) (tb t) (ta t) p
            else halfplane_one_infinite origin origin origin p)
      else False)"

text \<open>
  \<open>delaunay::triangulate\<close>. One round of the loop over the points is \<open>insert_point\<close>:
  the bad set, the polygon of the edges no other bad triangle has, the removal of the
  bad triangles and the fan of new triangles around the point.
\<close>

definition bad_triangle :: "point \<Rightarrow> triangle \<Rightarrow> bool" where
  "bad_triangle p t =
     (if \<not> infinite_circle (circumcircle t) then contains (circumcircle t) p
      else halfplane_contains t p)"

definition shared_edge :: "triangle list \<Rightarrow> nat \<Rightarrow> edge \<Rightarrow> bool" where
  "shared_edge bad_set i e =
     list_ex (\<lambda>j. j \<noteq> i \<and> has_edge (bad_set ! j) e) [0..<length bad_set]"

definition polygon_of :: "triangle list \<Rightarrow> edge list" where
  "polygon_of bad_set =
     concat (map (\<lambda>i. filter (\<lambda>e. \<not> shared_edge bad_set i e) (edges (bad_set ! i)))
                 [0..<length bad_set])"

definition in_bad_set :: "triangle list \<Rightarrow> triangle \<Rightarrow> bool" where
  "in_bad_set bad_set t = list_ex (\<lambda>b. triangle_eq b t) bad_set"

definition insert_point :: "triangle list \<Rightarrow> point \<Rightarrow> triangle list" where
  "insert_point triangulation p =
     (let bad_set = filter (bad_triangle p) triangulation;
          polygon = polygon_of bad_set
      in filter (\<lambda>t. \<not> in_bad_set bad_set t) triangulation
         @ map (\<lambda>e. mk_triangle (ea e) (eb e) p) polygon)"

definition touches_super :: "triangle \<Rightarrow> bool" where
  "touches_super t =
     (has_vertex t (ta super_triangle) \<or> has_vertex t (tb super_triangle)
      \<or> has_vertex t (tc super_triangle))"

definition triangulate :: "point list \<Rightarrow> triangle list" where
  "triangulate points =
     filter (\<lambda>t. \<not> touches_super t) (foldl insert_point [super_triangle] points)"

section \<open>The check of the tests\<close>

text \<open>
  \<open>valid_triangulation\<close> of the repository's tests: no point of the input is within the
  circumcircle of a returned triangle. The test "Random points are triangulated"
  requires it to hold.
\<close>

definition valid_triangulation :: "point list \<Rightarrow> bool" where
  "valid_triangulation points =
     list_all (\<lambda>t. list_all (\<lambda>p. \<not> contains (circumcircle t) p) points)
       (triangulate points)"

section \<open>Notions of the specification\<close>

text \<open>
  A value of the datatype is a double when rounding leaves it alone; the coordinates of
  a point of the program always are. A coordinate is finite when it is neither a NaN nor
  an infinity (\<open>point::finite\<close> only excludes the infinities).
\<close>

definition is_double :: "double \<Rightarrow> bool" where
  "is_double d = (case d of Fin r \<Rightarrow> rnd r = Fin r | _ \<Rightarrow> True)"

definition double_point :: "point \<Rightarrow> bool" where
  "double_point p = (is_double (px p) \<and> is_double (py p))"

definition is_finite :: "double \<Rightarrow> bool" where
  "is_finite d = (\<not> is_nan d \<and> \<not> is_inf d)"

text \<open>The signed area of a triangle of finite points, in exact real arithmetic.\<close>

definition exact_area :: "triangle \<Rightarrow> real" where
  "exact_area t =
     ((val (px (tb t)) - val (px (ta t))) * (val (py (tc t)) - val (py (ta t)))
    - (val (px (tc t)) - val (px (ta t))) * (val (py (tb t)) - val (py (ta t)))) / 2"

text \<open>The three symbolic points at infinity.\<close>

definition sym_a :: point where
  "sym_a = mk_point NInf NInf"

definition sym_b :: point where
  "sym_b = mk_point (Fin 0) PInf"

definition sym_c :: point where
  "sym_c = mk_point PInf (Fin 0)"

definition symbolic :: "point set" where
  "symbolic = {sym_a, sym_b, sym_c}"

definition symbolic_or_finite :: "point \<Rightarrow> bool" where
  "symbolic_or_finite v = (v \<in> symbolic \<or> finite_pt v)"

text \<open>
  The triangles of the case analysis: every vertex is a symbolic point or finite, and
  no symbolic point is there twice.
\<close>

definition wellformed_triangle :: "triangle \<Rightarrow> bool" where
  "wellformed_triangle t =
     (symbolic_or_finite (ta t) \<and> symbolic_or_finite (tb t) \<and> symbolic_or_finite (tc t)
      \<and> distinct (filter (\<lambda>v. \<not> finite_pt v) [ta t, tb t, tc t]))"

definition verts :: "triangle \<Rightarrow> point set" where
  "verts t = {ta t, tb t, tc t}"

definition symbolic_count :: "triangle \<Rightarrow> nat" where
  "symbolic_count t =
     of_bool (ta t \<in> symbolic) + of_bool (tb t \<in> symbolic) + of_bool (tc t \<in> symbolic)"

text \<open>
  The case analysis of section 4.2 of the specification, in its words: the cases are
  told apart by which symbolic points are present, the arithmetic is that of doubles.
  With one finite vertex \<open>f\<close> the pair of infinite vertices decides.
\<close>

definition spec_two_infinite :: "point \<Rightarrow> point set \<Rightarrow> point \<Rightarrow> bool" where
  "spec_two_infinite f vs p =
     (if vs = {sym_b, sym_c}
      then dgt (dadd (py p) (px p)) (dadd (py f) (px f))
      else if vs = {sym_b, sym_a}
      then dgt (dsub (py p) (dmul (Fin 3) (px p))) (dsub (py f) (dmul (Fin 3) (px f)))
      else if vs = {sym_a, sym_c}
      then dlt (dsub (py p) (ddiv (px p) (Fin 3))) (dsub (py f) (ddiv (px f) (Fin 3)))
      else False)"

text \<open>With one infinite vertex \<open>f\<close>, the line through \<open>v1\<close> and \<open>v2\<close> and the sign of its slope.\<close>

definition spec_one_infinite :: "point \<Rightarrow> point \<Rightarrow> point \<Rightarrow> point \<Rightarrow> bool" where
  "spec_one_infinite f v1 v2 p =
     (let m = slope v1 v2;
          b = dsub (py v1) (dmul m (px v1));
          l = dsub (py p) (dmul m (px p))
      in if f = sym_b then dgt l b
         else if f = sym_c then (dge m (Fin 0) \<and> dlt l b) \<or> (dlt m (Fin 0) \<and> dgt l b)
         else if f = sym_a then (dge m (Fin 1) \<and> dgt l b) \<or> (dlt m (Fin 1) \<and> dlt l b)
         else False)"

text \<open>
  The classification by the finite vertices. The specification does not order the two
  finite vertices \<open>v1\<close>, \<open>v2\<close>; they are taken in the order of the source, which matters
  for the rounding of the intercept.
\<close>

definition spec_halfplane :: "triangle \<Rightarrow> point \<Rightarrow> bool" where
  "spec_halfplane t p =
     (case (finite_pt (ta t), finite_pt (tb t), finite_pt (tc t)) of
        (False, False, False) \<Rightarrow> True
      | (True, False, False) \<Rightarrow> spec_two_infinite (ta t) {tb t, tc t} p
      | (False, True, False) \<Rightarrow> spec_two_infinite (tb t) {ta t, tc t} p
      | (False, False, True) \<Rightarrow> spec_two_infinite (tc t) {ta t, tb t} p
      | (False, True, True) \<Rightarrow> spec_one_infinite (ta t) (tb t) (tc t) p
      | (True, False, True) \<Rightarrow> spec_one_infinite (tb t) (ta t) (tc t) p
      | (True, True, False) \<Rightarrow> spec_one_infinite (tc t) (tb t) (ta t) p
      | (True, True, True) \<Rightarrow> False)"

section \<open>Concrete inputs\<close>

text \<open>Two points, their midpoint, and a fourth point off their line.\<close>

definition lost_p1 :: point where
  "lost_p1 = mk_point (Fin 0) (Fin 0)"

definition lost_p2 :: point where
  "lost_p2 = mk_point (Fin 2) (Fin 2)"

definition lost_p3 :: point where
  "lost_p3 = mk_point (Fin 1) (Fin 1)"

definition lost_p4 :: point where
  "lost_p4 = mk_point (Fin 2) (Fin (- 2))"

definition lost_points :: "point list" where
  "lost_points = [lost_p1, lost_p2, lost_p3, lost_p4]"

text \<open>The triangulation after each point of \<open>lost_points\<close>.\<close>

definition lost_t1 :: "triangle list" where
  "lost_t1 =
    [mk_triangle sym_a sym_b lost_p1,
     mk_triangle sym_b sym_c lost_p1,
     mk_triangle sym_a sym_c lost_p1]"

definition lost_t2 :: "triangle list" where
  "lost_t2 =
    [mk_triangle sym_a sym_b lost_p1,
     mk_triangle sym_a sym_c lost_p1,
     mk_triangle sym_b sym_c lost_p2,
     mk_triangle sym_c lost_p1 lost_p2,
     mk_triangle sym_b lost_p1 lost_p2]"

definition lost_t3 :: "triangle list" where
  "lost_t3 =
    [mk_triangle sym_a sym_b lost_p1,
     mk_triangle sym_a sym_c lost_p1,
     mk_triangle sym_b sym_c lost_p2,
     mk_triangle sym_c lost_p1 lost_p2,
     mk_triangle sym_b lost_p1 lost_p2]"

definition lost_t4 :: "triangle list" where
  "lost_t4 =
    [mk_triangle sym_a sym_b lost_p1,
     mk_triangle sym_b sym_c lost_p2,
     mk_triangle sym_b lost_p1 lost_p2,
     mk_triangle sym_a sym_c lost_p4,
     mk_triangle sym_a lost_p1 lost_p4,
     mk_triangle lost_p1 lost_p2 lost_p4,
     mk_triangle sym_c lost_p2 lost_p4]"

text \<open>Three points of a triangle and a fourth on its lower edge.\<close>

definition hull_p1 :: point where
  "hull_p1 = mk_point (Fin 0) (Fin 0)"

definition hull_p2 :: point where
  "hull_p2 = mk_point (Fin 2) (Fin 0)"

definition hull_p3 :: point where
  "hull_p3 = mk_point (Fin 1) (Fin 1)"

definition hull_p4 :: point where
  "hull_p4 = mk_point (Fin 1) (Fin 0)"

definition hull_points :: "point list" where
  "hull_points = [hull_p1, hull_p2, hull_p3, hull_p4]"

text \<open>The triangulation after each point of \<open>hull_points\<close>.\<close>

definition hull_t1 :: "triangle list" where
  "hull_t1 =
    [mk_triangle sym_a sym_b hull_p1,
     mk_triangle sym_b sym_c hull_p1,
     mk_triangle sym_a sym_c hull_p1]"

definition hull_t2 :: "triangle list" where
  "hull_t2 =
    [mk_triangle sym_a sym_b hull_p1,
     mk_triangle sym_b sym_c hull_p2,
     mk_triangle sym_b hull_p1 hull_p2,
     mk_triangle sym_a sym_c hull_p2,
     mk_triangle sym_a hull_p1 hull_p2]"

definition hull_t3 :: "triangle list" where
  "hull_t3 =
    [mk_triangle sym_a sym_b hull_p1,
     mk_triangle sym_b sym_c hull_p2,
     mk_triangle sym_a sym_c hull_p2,
     mk_triangle sym_a hull_p1 hull_p2,
     mk_triangle sym_b hull_p1 hull_p3,
     mk_triangle hull_p1 hull_p2 hull_p3,
     mk_triangle sym_b hull_p2 hull_p3]"

definition hull_t4 :: "triangle list" where
  "hull_t4 =
    [mk_triangle sym_a sym_b hull_p1,
     mk_triangle sym_b sym_c hull_p2,
     mk_triangle sym_a sym_c hull_p2,
     mk_triangle sym_a hull_p1 hull_p2,
     mk_triangle sym_b hull_p1 hull_p3,
     mk_triangle sym_b hull_p2 hull_p3,
     mk_triangle hull_p1 hull_p2 hull_p4,
     mk_triangle hull_p2 hull_p3 hull_p4,
     mk_triangle hull_p1 hull_p3 hull_p4]"

text \<open>A right triangle with legs of length \<open>2\<^sup>-\<^sup>3\<^sup>0\<close>.\<close>

definition tiny_p1 :: point where
  "tiny_p1 = mk_point (Fin 0) (Fin 0)"

definition tiny_p2 :: point where
  "tiny_p2 = mk_point (Fin (1 / 2 ^ 30)) (Fin 0)"

definition tiny_p3 :: point where
  "tiny_p3 = mk_point (Fin 0) (Fin (1 / 2 ^ 30))"

definition tiny_points :: "point list" where
  "tiny_points = [tiny_p1, tiny_p2, tiny_p3]"

text \<open>The triangulation after each point of \<open>tiny_points\<close>.\<close>

definition tiny_t1 :: "triangle list" where
  "tiny_t1 =
    [mk_triangle sym_a sym_b tiny_p1,
     mk_triangle sym_b sym_c tiny_p1,
     mk_triangle sym_a sym_c tiny_p1]"

definition tiny_t2 :: "triangle list" where
  "tiny_t2 =
    [mk_triangle sym_a sym_b tiny_p1,
     mk_triangle sym_b sym_c tiny_p2,
     mk_triangle sym_b tiny_p1 tiny_p2,
     mk_triangle sym_a sym_c tiny_p2,
     mk_triangle sym_a tiny_p1 tiny_p2]"

definition tiny_t3 :: "triangle list" where
  "tiny_t3 =
    [mk_triangle sym_b sym_c tiny_p2,
     mk_triangle sym_a sym_c tiny_p2,
     mk_triangle sym_a tiny_p1 tiny_p2,
     mk_triangle sym_a sym_b tiny_p3,
     mk_triangle sym_a tiny_p1 tiny_p3,
     mk_triangle tiny_p1 tiny_p2 tiny_p3,
     mk_triangle sym_b tiny_p2 tiny_p3]"

text \<open>Three points of the line \<open>x - 3 y = -4\<close>.\<close>

definition slant_p1 :: point where
  "slant_p1 = mk_point (Fin (- 4)) (Fin 0)"

definition slant_p2 :: point where
  "slant_p2 = mk_point (Fin (- 1)) (Fin 1)"

definition slant_p3 :: point where
  "slant_p3 = mk_point (Fin 2) (Fin 2)"

definition slant_points :: "point list" where
  "slant_points = [slant_p1, slant_p2, slant_p3]"

text \<open>The triangulation after each point of \<open>slant_points\<close>.\<close>

definition slant_t1 :: "triangle list" where
  "slant_t1 =
    [mk_triangle sym_a sym_b slant_p1,
     mk_triangle sym_b sym_c slant_p1,
     mk_triangle sym_a sym_c slant_p1]"

definition slant_t2 :: "triangle list" where
  "slant_t2 =
    [mk_triangle sym_a sym_b slant_p1,
     mk_triangle sym_a sym_c slant_p1,
     mk_triangle sym_b sym_c slant_p2,
     mk_triangle sym_c slant_p1 slant_p2,
     mk_triangle sym_b slant_p1 slant_p2]"

definition slant_t3 :: "triangle list" where
  "slant_t3 =
    [mk_triangle sym_a sym_b slant_p1,
     mk_triangle sym_a sym_c slant_p1,
     mk_triangle sym_c slant_p1 slant_p2,
     mk_triangle sym_b sym_c slant_p3,
     mk_triangle sym_c slant_p2 slant_p3,
     mk_triangle sym_b slant_p1 slant_p3,
     mk_triangle slant_p1 slant_p2 slant_p3]"

text \<open>The unit right triangle again, the vertical leg first.\<close>

definition upright_p1 :: point where
  "upright_p1 = mk_point (Fin 0) (Fin 0)"

definition upright_p2 :: point where
  "upright_p2 = mk_point (Fin 0) (Fin 1)"

definition upright_p3 :: point where
  "upright_p3 = mk_point (Fin 1) (Fin 0)"

definition upright_points :: "point list" where
  "upright_points = [upright_p1, upright_p2, upright_p3]"

text \<open>The triangulation after each point of \<open>upright_points\<close>.\<close>

definition upright_t1 :: "triangle list" where
  "upright_t1 =
    [mk_triangle sym_a sym_b upright_p1,
     mk_triangle sym_b sym_c upright_p1,
     mk_triangle sym_a sym_c upright_p1]"

definition upright_t2 :: "triangle list" where
  "upright_t2 =
    [mk_triangle sym_a sym_c upright_p1,
     mk_triangle sym_a sym_b upright_p2,
     mk_triangle sym_a upright_p1 upright_p2,
     mk_triangle sym_b sym_c upright_p2,
     mk_triangle sym_c upright_p1 upright_p2]"

definition upright_t3 :: "triangle list" where
  "upright_t3 =
    [mk_triangle sym_a sym_b upright_p2,
     mk_triangle sym_a upright_p1 upright_p2,
     mk_triangle sym_b sym_c upright_p2,
     mk_triangle sym_c upright_p1 upright_p2,
     mk_triangle sym_a sym_c upright_p3,
     mk_triangle sym_c upright_p1 upright_p3,
     mk_triangle sym_a upright_p1 upright_p3]"

text \<open>Three points whose triangle has the area \<open>2\<^sup>-\<^sup>5\<^sup>1\<close>.\<close>

definition thin_p1 :: point where
  "thin_p1 = mk_point (Fin 0) (Fin 1)"

definition thin_p2 :: point where
  "thin_p2 = mk_point (Fin 16) (Fin (4503599627370497 / 2 ^ 52))"

definition thin_p3 :: point where
  "thin_p3 = mk_point (Fin (- 4)) (Fin 1)"

definition thin_points :: "point list" where
  "thin_points = [thin_p1, thin_p2, thin_p3]"

text \<open>The triangulation after each point of \<open>thin_points\<close>.\<close>

definition thin_t1 :: "triangle list" where
  "thin_t1 =
    [mk_triangle sym_a sym_b thin_p1,
     mk_triangle sym_b sym_c thin_p1,
     mk_triangle sym_a sym_c thin_p1]"

definition thin_t2 :: "triangle list" where
  "thin_t2 =
    [mk_triangle sym_a sym_b thin_p1,
     mk_triangle sym_b sym_c thin_p2,
     mk_triangle sym_b thin_p1 thin_p2,
     mk_triangle sym_a sym_c thin_p2,
     mk_triangle sym_a thin_p1 thin_p2]"

definition thin_t3 :: "triangle list" where
  "thin_t3 =
    [mk_triangle sym_b sym_c thin_p2,
     mk_triangle sym_b thin_p1 thin_p2,
     mk_triangle sym_a sym_c thin_p2,
     mk_triangle sym_a thin_p1 thin_p2,
     mk_triangle sym_a sym_b thin_p3,
     mk_triangle sym_b thin_p1 thin_p3,
     mk_triangle sym_a thin_p1 thin_p3]"

text \<open>The unit right triangle.\<close>

definition unit_p1 :: point where
  "unit_p1 = mk_point (Fin 0) (Fin 0)"

definition unit_p2 :: point where
  "unit_p2 = mk_point (Fin 1) (Fin 0)"

definition unit_p3 :: point where
  "unit_p3 = mk_point (Fin 0) (Fin 1)"

definition unit_points :: "point list" where
  "unit_points = [unit_p1, unit_p2, unit_p3]"

text \<open>The triangulation after each point of \<open>unit_points\<close>.\<close>

definition unit_t1 :: "triangle list" where
  "unit_t1 =
    [mk_triangle sym_a sym_b unit_p1,
     mk_triangle sym_b sym_c unit_p1,
     mk_triangle sym_a sym_c unit_p1]"

definition unit_t2 :: "triangle list" where
  "unit_t2 =
    [mk_triangle sym_a sym_b unit_p1,
     mk_triangle sym_b sym_c unit_p2,
     mk_triangle sym_b unit_p1 unit_p2,
     mk_triangle sym_a sym_c unit_p2,
     mk_triangle sym_a unit_p1 unit_p2]"

definition unit_t3 :: "triangle list" where
  "unit_t3 =
    [mk_triangle sym_b sym_c unit_p2,
     mk_triangle sym_a sym_c unit_p2,
     mk_triangle sym_a unit_p1 unit_p2,
     mk_triangle sym_a sym_b unit_p3,
     mk_triangle sym_a unit_p1 unit_p3,
     mk_triangle unit_p1 unit_p2 unit_p3,
     mk_triangle sym_b unit_p2 unit_p3]"

text \<open>The horizontal line of the test "Collinear points have no triangulation".\<close>

definition horizontal_p1 :: point where
  "horizontal_p1 = mk_point (Fin 0) (Fin 1)"

definition horizontal_p2 :: point where
  "horizontal_p2 = mk_point (Fin (1 / 2)) (Fin 1)"

definition horizontal_p3 :: point where
  "horizontal_p3 = mk_point (Fin (3 / 2)) (Fin 1)"

definition horizontal_points :: "point list" where
  "horizontal_points = [horizontal_p1, horizontal_p2, horizontal_p3]"

text \<open>The triangulation after each point of \<open>horizontal_points\<close>.\<close>

definition horizontal_t1 :: "triangle list" where
  "horizontal_t1 =
    [mk_triangle sym_a sym_b horizontal_p1,
     mk_triangle sym_b sym_c horizontal_p1,
     mk_triangle sym_a sym_c horizontal_p1]"

definition horizontal_t2 :: "triangle list" where
  "horizontal_t2 =
    [mk_triangle sym_a sym_b horizontal_p1,
     mk_triangle sym_b sym_c horizontal_p2,
     mk_triangle sym_b horizontal_p1 horizontal_p2,
     mk_triangle sym_a sym_c horizontal_p2,
     mk_triangle sym_a horizontal_p1 horizontal_p2]"

definition horizontal_t3 :: "triangle list" where
  "horizontal_t3 =
    [mk_triangle sym_a sym_b horizontal_p1,
     mk_triangle sym_b horizontal_p1 horizontal_p2,
     mk_triangle sym_a horizontal_p1 horizontal_p2,
     mk_triangle sym_b sym_c horizontal_p3,
     mk_triangle sym_b horizontal_p2 horizontal_p3,
     mk_triangle sym_a sym_c horizontal_p3,
     mk_triangle sym_a horizontal_p2 horizontal_p3]"

text \<open>The third triple of the test "Nearly collinear points are triangulated", as doubles.\<close>

definition nearly_p1 :: point where
  "nearly_p1 = mk_point (Fin (1 / 4)) (Fin (1 / 4))"

definition nearly_p2 :: point where
  "nearly_p2 = mk_point (Fin (3152519739159347 / 2 ^ 53)) (Fin (3152519739159347 / 2 ^ 53))"

definition nearly_p3 :: point where
  "nearly_p3 = mk_point (Fin (8106479329266893 / 2 ^ 54)) (Fin (8107380049192367 / 2 ^ 54))"

definition nearly_points :: "point list" where
  "nearly_points = [nearly_p1, nearly_p2, nearly_p3]"

text \<open>The triangulation after each point of \<open>nearly_points\<close>.\<close>

definition nearly_t1 :: "triangle list" where
  "nearly_t1 =
    [mk_triangle sym_a sym_b nearly_p1,
     mk_triangle sym_b sym_c nearly_p1,
     mk_triangle sym_a sym_c nearly_p1]"

definition nearly_t2 :: "triangle list" where
  "nearly_t2 =
    [mk_triangle sym_a sym_b nearly_p1,
     mk_triangle sym_a sym_c nearly_p1,
     mk_triangle sym_b sym_c nearly_p2,
     mk_triangle sym_c nearly_p1 nearly_p2,
     mk_triangle sym_b nearly_p1 nearly_p2]"

definition nearly_t3 :: "triangle list" where
  "nearly_t3 =
    [mk_triangle sym_a sym_b nearly_p1,
     mk_triangle sym_a sym_c nearly_p1,
     mk_triangle sym_c nearly_p1 nearly_p2,
     mk_triangle sym_b sym_c nearly_p3,
     mk_triangle sym_c nearly_p2 nearly_p3,
     mk_triangle sym_b nearly_p1 nearly_p3,
     mk_triangle nearly_p1 nearly_p2 nearly_p3]"

text \<open>The vertical line of the same test.\<close>

definition vertical_p1 :: point where
  "vertical_p1 = mk_point (Fin 0) (Fin (- 5))"

definition vertical_p2 :: point where
  "vertical_p2 = mk_point (Fin 0) (Fin 0)"

definition vertical_p3 :: point where
  "vertical_p3 = mk_point (Fin 0) (Fin 10)"

definition vertical_points :: "point list" where
  "vertical_points = [vertical_p1, vertical_p2, vertical_p3]"

text \<open>The triangulation after each point of \<open>vertical_points\<close>.\<close>

definition vertical_t1 :: "triangle list" where
  "vertical_t1 =
    [mk_triangle sym_a sym_b vertical_p1,
     mk_triangle sym_b sym_c vertical_p1,
     mk_triangle sym_a sym_c vertical_p1]"

definition vertical_t2 :: "triangle list" where
  "vertical_t2 =
    [mk_triangle sym_a sym_c vertical_p1,
     mk_triangle sym_a sym_b vertical_p2,
     mk_triangle sym_a vertical_p1 vertical_p2,
     mk_triangle sym_b sym_c vertical_p2,
     mk_triangle sym_c vertical_p1 vertical_p2]"

definition vertical_t3 :: "triangle list" where
  "vertical_t3 =
    [mk_triangle sym_a sym_c vertical_p1,
     mk_triangle sym_a vertical_p1 vertical_p2,
     mk_triangle sym_c vertical_p1 vertical_p2,
     mk_triangle sym_a sym_b vertical_p3,
     mk_triangle sym_a vertical_p2 vertical_p3,
     mk_triangle sym_b sym_c vertical_p3,
     mk_triangle sym_c vertical_p2 vertical_p3]"

text \<open>A flat triangle of finite points, a query point, and a triangle with one vertex at infinity.\<close>

definition flat_triangle :: triangle where
  "flat_triangle =
     mk_triangle (mk_point (Fin 0) (Fin 0)) (mk_point (Fin 1) (Fin 0)) (mk_point (Fin 2) (Fin 0))"

definition query_point :: point where
  "query_point = mk_point (Fin 1) (Fin 1)"

definition open_triangle :: triangle where
  "open_triangle = mk_triangle sym_b (mk_point (Fin 0) (Fin 0)) (mk_point (Fin 1) (Fin 0))"

text \<open>Points one machine epsilon apart, and a point of NaNs.\<close>

definition eq_p :: point where
  "eq_p = mk_point (Fin 0) (Fin 0)"

definition eq_q :: point where
  "eq_q = mk_point (Fin (1 / 2 ^ 52)) (Fin 0)"

definition eq_r :: point where
  "eq_r = mk_point (Fin (1 / 2 ^ 51)) (Fin 0)"

definition nan_point :: point where
  "nan_point = mk_point NaN NaN"

section \<open>Evaluation\<close>

text \<open>
  The definitions as rewrite rules, for running the model on concrete inputs. The
  bindings of a \<open>let\<close> are evaluated before its body is entered (\<open>let_weak_cong\<close>).
\<close>

lemmas rnd_ev = rnd_def round_pos_def overflow_def round_to_def round_even_def round_floor_def
  frac_part_def nearest_even_def expo_def pow2_def compute_bitlen

lemmas arith_ev = rnd_ev dsub_def dmul_def ddiv_def is_zero_def with_sign_def dle_def dgt_def
  dge_def dne_def dmin_def epsilon_def

lemmas geo_ev = mk_point_def mk_edge_def mk_circle_def mk_triangle_def point_eq_def finite_pt_def
  slope_def midpoint_def distance_squared_def contains_def infinite_circle_def area_def valid_def
  has_vertex_def circumcircle_def edges_def same_edge_def has_edge_def triangle_eq_def

lemmas del_ev = super_triangle_def origin_def halfplane_two_infinite_def
  halfplane_one_infinite_def finite_points_def halfplane_contains_def bad_triangle_def
  shared_edge_def polygon_of_def in_bad_set_def insert_point_def touches_super_def

section \<open>The rounding\<close>

text \<open>One third is \<open>0x3FD5555555555555\<close>; a tie goes to the even significand.\<close>

lemma rnd_third: "rnd (1 / 3) = Fin (6004799503160661 / 2 ^ 54)"
  by (simp add: rnd_ev)

lemma rnd_ties: "rnd (1 + 1 / 2 ^ 53) = Fin 1" "rnd (1 + 3 / 2 ^ 53) = Fin (1 + 1 / 2 ^ 51)"
  by (simp_all add: rnd_ev)

text \<open>
  Some operations with the results of the hardware: \<open>0.1 + 0.2\<close>, \<open>0.1 * 0.1\<close>, \<open>1 / 10\<close>,
  \<open>-1 / 3\<close>, and the special values.
\<close>

lemma double_arithmetic_examples:
  "dadd (Fin (3602879701896397 / 2 ^ 55)) (Fin (3602879701896397 / 2 ^ 54))
     = Fin (1351079888211149 / 2 ^ 52)"
  "dmul (Fin (3602879701896397 / 2 ^ 55)) (Fin (3602879701896397 / 2 ^ 55))
     = Fin (1441151880758559 / 2 ^ 57)"
  "ddiv (Fin 1) (Fin 10) = Fin (3602879701896397 / 2 ^ 55)"
  "ddiv (Fin (- 1)) (Fin 3) = Fin (- (6004799503160661 / 2 ^ 54))"
  "ddiv (Fin 1) NZero = NInf"
  "dmul PInf (Fin 0) = NaN"
  "dsub PInf PInf = NaN"
  "dsub (Fin 1) (Fin 1) = Fin 0"
  "dmul (Fin (- 1)) (Fin 0) = NZero"
  by (simp_all add: arith_ev)

lemma pow2_pos: "0 < pow2 k"
  by (simp add: pow2_def)

lemma int_le_pow2_real: "(a::int) \<le> 2 ^ k \<Longrightarrow> real_of_int a \<le> (2::real) ^ k"
  by simp

lemma pow2_le_int_real: "2 ^ k \<le> (a::int) \<Longrightarrow> (2::real) ^ k \<le> real_of_int a"
  by simp

lemma expo_bounds_large:
  fixes r :: real
  assumes "1 \<le> r"
  shows "2 ^ nat (bitlen \<lfloor>r\<rfloor> - 1) \<le> r \<and> r < 2 ^ nat (bitlen \<lfloor>r\<rfloor>)"
proof -
  from assms have pos: "0 < \<lfloor>r\<rfloor>" by simp
  from bitlen_bounds [OF pos]
  have lo: "2 ^ nat (bitlen \<lfloor>r\<rfloor> - 1) \<le> \<lfloor>r\<rfloor>" and hi: "\<lfloor>r\<rfloor> + 1 \<le> 2 ^ nat (bitlen \<lfloor>r\<rfloor>)"
    by simp_all
  have f: "real_of_int \<lfloor>r\<rfloor> \<le> r" and g: "r < real_of_int \<lfloor>r\<rfloor> + 1"
    by linarith+
  from pow2_le_int_real [OF lo] f have "2 ^ nat (bitlen \<lfloor>r\<rfloor> - 1) \<le> r"
    by (rule order_trans)
  moreover from int_le_pow2_real [OF hi] have "real_of_int \<lfloor>r\<rfloor> + 1 \<le> 2 ^ nat (bitlen \<lfloor>r\<rfloor>)"
    by (simp only: of_int_add of_int_1)
  with g have "r < 2 ^ nat (bitlen \<lfloor>r\<rfloor>)"
    by (rule less_le_trans)
  ultimately show ?thesis ..
qed

lemma expo_bounds_small:
  fixes r :: real
  assumes "0 < r" and "r < 1"
  shows "1 / 2 ^ nat (bitlen (\<lceil>1 / r\<rceil> - 1)) \<le> r
       \<and> r < 1 / 2 ^ nat (bitlen (\<lceil>1 / r\<rceil> - 1) - 1)"
proof -
  define n where "n = \<lceil>1 / r\<rceil> - 1"
  from assms have "1 < 1 / r" by simp
  then have pos: "0 < n" unfolding n_def by linarith
  have nlt: "real_of_int n < 1 / r" and nge: "1 / r \<le> real_of_int n + 1"
    unfolding n_def by linarith+
  from bitlen_bounds [OF pos]
  have lo: "2 ^ nat (bitlen n - 1) \<le> n" and hi: "n + 1 \<le> 2 ^ nat (bitlen n)"
    by simp_all
  from int_le_pow2_real [OF hi] have "real_of_int n + 1 \<le> 2 ^ nat (bitlen n)"
    by (simp only: of_int_add of_int_1)
  with nge have "1 / r \<le> 2 ^ nat (bitlen n)"
    by (rule order_trans)
  with assms(1) have l: "1 / 2 ^ nat (bitlen n) \<le> r"
    by (simp add: field_simps)
  from pow2_le_int_real [OF lo] nlt have "2 ^ nat (bitlen n - 1) < 1 / r"
    by (rule le_less_trans)
  with assms(1) have h: "r < 1 / 2 ^ nat (bitlen n - 1)"
    by (simp add: field_simps)
  from l h show ?thesis unfolding n_def ..
qed

text \<open>\<open>expo\<close> is the binary exponent: \<open>2\<^bsup>expo r\<^esup> \<le> r < 2\<^bsup>expo r + 1\<^esup>\<close>.\<close>

lemma expo_bounds:
  assumes "0 < r"
  shows "pow2 (expo r) \<le> r \<and> r < pow2 (expo r + 1)"
proof (cases "1 \<le> r")
  case True
  then have "0 < \<lfloor>r\<rfloor>" by simp
  then have "1 \<le> bitlen \<lfloor>r\<rfloor>"
    by (simp add: bitlen_alt_def)
  with True expo_bounds_large [OF True] show ?thesis
    by (simp add: expo_def pow2_def)
next
  case False
  with assms have r1: "r < 1" by simp
  define b where "b = bitlen (\<lceil>1 / r\<rceil> - 1)"
  from assms r1 have "1 < 1 / r" by simp
  then have "0 < \<lceil>1 / r\<rceil> - 1" by linarith
  then have b1: "1 \<le> b"
    unfolding b_def by (simp add: bitlen_alt_def)
  from expo_bounds_small [OF assms r1]
  have l: "1 / 2 ^ nat b \<le> r" and h: "r < 1 / 2 ^ nat (b - 1)"
    unfolding b_def by simp_all
  have e: "expo r = - b"
    using False by (simp add: expo_def b_def)
  have lo: "pow2 (- b) = 1 / 2 ^ nat b"
    using b1 by (simp add: pow2_def)
  have hi: "pow2 (- b + 1) = 1 / 2 ^ nat (b - 1)"
    using b1 by (cases "b = 1") (simp_all add: pow2_def)
  from l h show ?thesis
    unfolding e lo hi by simp
qed

text \<open>The rounded value is a nearest multiple of the spacing.\<close>

lemma round_even_nearest: "\<bar>of_int (round_even r) - r\<bar> \<le> 1 / 2"
  by (simp add: round_even_def round_floor_def nearest_even_def frac_part_def)

lemma round_to_nearest:
  assumes "0 < q"
  shows "\<bar>round_to q r - r\<bar> \<le> q / 2"
proof -
  have "(of_int (round_even (r / q)) - r / q) * q = round_to q r - r"
    using assms by (simp add: round_to_def left_diff_distrib)
  then have "\<bar>round_to q r - r\<bar> = \<bar>of_int (round_even (r / q)) - r / q\<bar> * \<bar>q\<bar>"
    by (simp only: abs_mult [symmetric])
  also have "\<dots> = \<bar>of_int (round_even (r / q)) - r / q\<bar> * q"
    using assms by simp
  also have "\<dots> \<le> 1 / 2 * q"
    using round_even_nearest [of "r / q"] assms by (intro mult_right_mono) simp_all
  finally show ?thesis by simp
qed

lemma dneg_dneg: "dneg (dneg d) = d"
  by (cases d) simp_all

lemma rnd_minus: "r \<noteq> 0 \<Longrightarrow> rnd (- r) = dneg (rnd r)"
  by (simp add: rnd_def dneg_dneg)

lemma rnd_cases: "rnd r = PInf \<or> rnd r = NInf \<or> rnd r = NZero \<or> (\<exists>v. rnd r = Fin v)"
  by (auto simp: rnd_def round_pos_def overflow_def)

lemma rnd_nonneg: "0 \<le> r \<Longrightarrow> rnd r = PInf \<or> (\<exists>v. rnd r = Fin v)"
  by (simp add: rnd_def round_pos_def overflow_def)

section \<open>The comparisons\<close>

lemma dlt_irrefl: "\<not> dlt d d"
  by (cases d) simp_all

lemma dlt_trans: "dlt d e \<Longrightarrow> dlt e f \<Longrightarrow> dlt d f"
  by (cases d; cases e; cases f) simp_all

lemma dlt_asym: "dlt d e \<Longrightarrow> \<not> dlt e d"
  using dlt_irrefl dlt_trans by blast

lemma dlt_nan [simp]: "\<not> dlt d NaN"
  by (cases d) simp_all

lemma deq_refl: "\<not> is_nan d \<Longrightarrow> deq d d"
  by (cases d) simp_all

lemma deq_sym: "deq d e = deq e d"
  by (cases d; cases e) auto

lemma not_dge_cases: "\<not> dge m c \<Longrightarrow> dlt m c \<or> m = NaN \<or> c = NaN"
  by (cases m; cases c) (auto simp: dge_def dle_def)

lemma dge_not_dlt: "dge m c \<Longrightarrow> \<not> dlt m c"
  by (cases m; cases c) (auto simp: dge_def dle_def)

text \<open>No argument of the nested \<open>std::min\<close> is below its result.\<close>

lemma dlt_dmin3_a: "\<not> dlt d (dmin (dmin d e) f)"
  by (auto simp: dmin_def dlt_irrefl dest: dlt_asym dlt_trans)

lemma dlt_dmin3_b: "\<not> dlt e (dmin (dmin d e) f)"
  by (auto simp: dmin_def dlt_irrefl dest: dlt_asym dlt_trans)

lemma dlt_dmin3_c: "\<not> dlt f (dmin (dmin d e) f)"
  by (auto simp: dmin_def dlt_irrefl dest: dlt_asym dlt_trans)

section \<open>The arithmetic\<close>

lemma dfabs_dneg: "dfabs (dneg d) = dfabs d"
  by (cases d) simp_all

lemma dmul_nan [simp]: "dmul NaN d = NaN" "dmul d NaN = NaN"
  by (simp_all add: dmul_def)

lemma dsub_nan [simp]: "dsub d NaN = NaN" "dsub NaN d = NaN"
  by (cases d; simp add: dsub_def)+

lemma dsub_zero: "dsub d (Fin 0) = d"
  by (cases d) (simp_all add: dsub_def)

text \<open>The two differences of two doubles have the same absolute value.\<close>

lemma dfabs_dsub_commute:
  assumes "is_double d" and "is_double e"
  shows "dfabs (dsub d e) = dfabs (dsub e d)"
proof (cases d; cases e)
  fix r s assume de: "d = Fin r" "e = Fin s"
  with assms have r: "rnd r = Fin r" and s: "rnd s = Fin s"
    by (simp_all add: is_double_def)
  have "r \<noteq> s \<Longrightarrow> rnd (s - r) = dneg (rnd (r - s))"
    using rnd_minus [of "r - s"] by simp
  with de r s show ?thesis
    using rnd_minus [of r] rnd_minus [of s]
    by (cases "r = s") (auto simp: dsub_def dfabs_dneg)
next
  fix r assume de: "d = Fin r" "e = NZero"
  with assms have r: "rnd r = Fin r"
    by (simp add: is_double_def)
  with de show ?thesis
    by (auto simp: dsub_def dfabs_dneg)
next
  fix s assume de: "d = NZero" "e = Fin s"
  with assms have s: "rnd s = Fin s"
    by (simp add: is_double_def)
  with de show ?thesis
    by (auto simp: dsub_def dfabs_dneg)
qed (simp_all add: dsub_def)

text \<open>The square of a finite double is a non-negative double or an overflow.\<close>

lemma dmul_self: "is_finite d \<Longrightarrow> dmul d d = PInf \<or> (\<exists>v. dmul d d = Fin v)"
  using rnd_nonneg [of "\<bar>val d\<bar> * \<bar>val d\<bar>"]
  by (cases d) (auto simp: dmul_def is_finite_def with_sign_def is_zero_def)

lemma dadd_not_nan:
  assumes "d = PInf \<or> (\<exists>v. d = Fin v)" and "e = PInf \<or> (\<exists>v. e = Fin v)"
  shows "dadd d e \<noteq> NaN"
proof -
  have "\<And>r. rnd r \<noteq> NaN"
    using rnd_cases by (metis double.distinct(1,3,5,7))
  with assms show ?thesis by auto
qed

lemma sum_squares_finite:
  assumes "is_finite d" and "is_finite e"
  shows "dlt (dadd (dmul d d) (dmul e e)) PInf = (dadd (dmul d d) (dmul e e) \<noteq> PInf)"
proof -
  from dadd_not_nan [OF dmul_self [OF assms(1)] dmul_self [OF assms(2)]]
  show ?thesis
    by (cases "dadd (dmul d d) (dmul e e)") simp_all
qed

section \<open>The primitives\<close>

lemma point_eq_refl:
  assumes "\<not> is_nan (px p)" and "\<not> is_nan (py p)"
  shows "point_eq p p"
  using assms by (simp add: point_eq_def deq_refl)

lemma point_eq_sym:
  assumes "double_point p" and "double_point q"
  shows "point_eq p q = point_eq q p"
  using assms
  by (simp add: point_eq_def double_point_def deq_sym [of "px p"] deq_sym [of "py p"]
      dfabs_dsub_commute [of "px p"] dfabs_dsub_commute [of "py p"])

lemma contains_distance: "contains k p = dlt (distance_squared p (center k)) (radius k)"
  by (simp add: contains_def distance_squared_def Let_def)

lemma distance_squared_origin:
  "distance_squared p origin = dadd (dmul (px p) (px p)) (dmul (py p) (py p))"
  by (simp add: distance_squared_def origin_def mk_point_def dsub_zero Let_def)

lemma circumcircle_invalid:
  "\<not> valid t \<Longrightarrow> circumcircle t = mk_circle origin PInf"
  by (simp add: circumcircle_def origin_def)

lemma circumcircle_valid_radius:
  "valid t \<Longrightarrow> radius (circumcircle t) =
     dmin (dmin (distance_squared (ta t) (center (circumcircle t)))
                (distance_squared (tb t) (center (circumcircle t))))
          (distance_squared (tc t) (center (circumcircle t)))"
  by (simp add: circumcircle_def Let_def mk_circle_def)

section \<open>The half-plane test and the symbolic points\<close>

lemma sym_distinct: "sym_a \<noteq> sym_b" "sym_a \<noteq> sym_c" "sym_b \<noteq> sym_c"
  by (simp_all add: sym_a_def sym_b_def sym_c_def mk_point_def)

lemma sym_not_finite: "\<not> finite_pt sym_a" "\<not> finite_pt sym_b" "\<not> finite_pt sym_c"
  by (simp_all add: sym_a_def sym_b_def sym_c_def mk_point_def finite_pt_def dne_def)

lemma sym_coords:
  "px sym_a = NInf" "py sym_a = NInf" "px sym_b = Fin 0" "py sym_b = PInf"
  "px sym_c = PInf" "py sym_c = Fin 0"
  by (simp_all add: sym_a_def sym_b_def sym_c_def mk_point_def)

lemma super_triangle_sym: "super_triangle = mk_triangle sym_a sym_b sym_c"
  by (simp add: super_triangle_def sym_a_def sym_b_def sym_c_def)

text \<open>The tests on the coordinates of the infinite vertices tell the pairs apart.\<close>

lemma halfplane_two_infinite_spec:
  assumes "v1 \<in> symbolic" and "v2 \<in> symbolic" and "v1 \<noteq> v2"
  shows "halfplane_two_infinite f v1 v2 p = spec_two_infinite f {v1, v2} p"
  using assms sym_distinct
  by (auto simp: halfplane_two_infinite_def spec_two_infinite_def symbolic_def sym_coords
      doubleton_eq_iff)

text \<open>
  Where the source has an \<open>else\<close> the specification has the opposite comparison of the
  slope; they differ on a NaN slope only, and then every comparison of the line fails.
\<close>

lemma halfplane_one_infinite_spec:
  assumes "f \<in> symbolic"
  shows "halfplane_one_infinite f v1 v2 p = spec_one_infinite f v1 v2 p"
proof -
  have nan: "slope v1 v2 = NaN \<Longrightarrow>
      \<not> dgt (dsub (py p) (dmul (slope v1 v2) (px p))) (dsub (py v1) (dmul (slope v1 v2) (px v1)))
    \<and> \<not> dlt (dsub (py p) (dmul (slope v1 v2) (px p))) (dsub (py v1) (dmul (slope v1 v2) (px v1)))"
    by (simp add: dgt_def)
  show ?thesis
    using assms sym_distinct nan
    by (auto simp: halfplane_one_infinite_def spec_one_infinite_def symbolic_def sym_coords
        Let_def dest: not_dge_cases dge_not_dlt)
qed

section \<open>The vertices of the triangulation\<close>

lemma edges_verts: "e \<in> set (edges t) \<Longrightarrow> ea e \<in> verts t \<and> eb e \<in> verts t"
  by (auto simp: edges_def verts_def mk_edge_def)

text \<open>Every edge of the polygon is an edge of a bad triangle.\<close>

lemma polygon_of_edges:
  assumes "e \<in> set (polygon_of bad_set)"
  shows "\<exists>t \<in> set bad_set. e \<in> set (edges t)"
proof -
  from assms obtain i where "i < length bad_set" and "e \<in> set (edges (bad_set ! i))"
    by (auto simp: polygon_of_def)
  then show ?thesis
    using nth_mem by blast
qed

text \<open>A triangle after a round was there before, or joins an old edge to the new point.\<close>

lemma insert_point_cases:
  assumes "t' \<in> set (insert_point T p)"
  shows "t' \<in> set T \<or> (\<exists>t \<in> set T. \<exists>e \<in> set (edges t). t' = mk_triangle (ea e) (eb e) p)"
proof -
  from assms consider "t' \<in> set T"
    | e where "e \<in> set (polygon_of (filter (bad_triangle p) T))"
      and "t' = mk_triangle (ea e) (eb e) p"
    by (auto simp: insert_point_def Let_def)
  then show ?thesis
  proof cases
    case 1
    then show ?thesis by simp
  next
    case 2
    from polygon_of_edges [OF 2(1)] obtain t where "t \<in> set T" and "e \<in> set (edges t)"
      by auto
    with 2(2) show ?thesis by blast
  qed
qed

lemma insert_point_verts:
  assumes "\<forall>t \<in> set T. verts t \<subseteq> V" and "t' \<in> set (insert_point T p)"
  shows "verts t' \<subseteq> insert p V"
proof -
  from insert_point_cases [OF assms(2)] show ?thesis
  proof
    assume "t' \<in> set T"
    with assms(1) show ?thesis by auto
  next
    assume "\<exists>t \<in> set T. \<exists>e \<in> set (edges t). t' = mk_triangle (ea e) (eb e) p"
    then obtain t e where t: "t \<in> set T" and e: "e \<in> set (edges t)"
      and t': "t' = mk_triangle (ea e) (eb e) p"
      by blast
    from edges_verts [OF e] t assms(1) have "ea e \<in> V" and "eb e \<in> V"
      by auto
    with t' show ?thesis
      by (simp add: verts_def mk_triangle_def)
  qed
qed

lemma foldl_insert_point_verts:
  "\<forall>t \<in> set T. verts t \<subseteq> V \<Longrightarrow>
   \<forall>t \<in> set (foldl insert_point T ps). verts t \<subseteq> V \<union> set ps"
proof (induction ps arbitrary: T V)
  case Nil
  then show ?case by simp
next
  case (Cons p ps)
  have "\<forall>t \<in> set (insert_point T p). verts t \<subseteq> insert p V"
    using insert_point_verts [OF Cons.prems] by blast
  from Cons.IH [OF this] show ?case by simp
qed

lemma point_eq_symbolic: "v \<in> symbolic \<Longrightarrow> point_eq v v"
  by (auto simp: symbolic_def sym_a_def sym_b_def sym_c_def point_eq_def mk_point_def)

lemma verts_super: "verts super_triangle = symbolic"
  by (simp add: verts_def super_triangle_sym symbolic_def mk_triangle_def)

text \<open>The last filter removes every triangle with a symbolic vertex.\<close>

lemma touches_super_symbolic:
  assumes "v \<in> verts t" and "v \<in> symbolic"
  shows "touches_super t"
proof -
  from assms(2) have "v = ta super_triangle \<or> v = tb super_triangle \<or> v = tc super_triangle"
    using verts_super by (auto simp: verts_def)
  moreover from assms(1) have "has_vertex t v"
    using point_eq_symbolic [OF assms(2)] by (auto simp: has_vertex_def verts_def)
  ultimately show ?thesis
    by (auto simp: touches_super_def)
qed

lemma triangulate_verts:
  assumes "t \<in> set (triangulate S)"
  shows "verts t \<subseteq> set S" and "\<not> touches_super t"
proof -
  from assms have mem: "t \<in> set (foldl insert_point [super_triangle] S)"
    and nt: "\<not> touches_super t"
    by (simp_all add: triangulate_def)
  show "\<not> touches_super t" by (rule nt)
  have "\<forall>t \<in> set [super_triangle]. verts t \<subseteq> symbolic"
    by (simp add: verts_super)
  from foldl_insert_point_verts [OF this] mem have sub: "verts t \<subseteq> symbolic \<union> set S"
    by blast
  show "verts t \<subseteq> set S"
  proof
    fix v assume v: "v \<in> verts t"
    with sub have "v \<in> symbolic \<or> v \<in> set S" by blast
    with touches_super_symbolic [OF v] nt show "v \<in> set S" by blast
  qed
qed

section \<open>The check of the tests and the validity of the result\<close>

text \<open>
  A returned triangle that is not valid has the circle of infinite radius, which
  contains the vertices of the triangle, input points all. So where the check of the
  tests holds, on points of finite coordinates whose squared distances from the origin
  do not overflow, every returned triangle is valid.
\<close>

lemma valid_triangulation_valid:
  assumes "valid_triangulation S" and "t \<in> set (triangulate S)"
    and "\<forall>p \<in> set S. is_finite (px p) \<and> is_finite (py p) \<and> distance_squared p origin \<noteq> PInf"
  shows "valid t"
proof (rule ccontr)
  assume "\<not> valid t"
  then have c: "circumcircle t = mk_circle origin PInf"
    by (rule circumcircle_invalid)
  from triangulate_verts(1) [OF assms(2)] have a: "ta t \<in> set S"
    by (simp add: verts_def)
  with assms(3) have f: "is_finite (px (ta t))" "is_finite (py (ta t))"
    and d: "distance_squared (ta t) origin \<noteq> PInf"
    by blast+
  have "contains (mk_circle origin PInf) (ta t) = dlt (distance_squared (ta t) origin) PInf"
    by (simp add: contains_distance mk_circle_def)
  with d have "contains (circumcircle t) (ta t)"
    unfolding c by (simp add: distance_squared_origin sum_squares_finite [OF f])
  moreover from assms(1,2) a have "\<not> contains (circumcircle t) (ta t)"
    by (simp add: valid_triangulation_def list_all_iff)
  ultimately show False by contradiction
qed

section \<open>The triangles of the triangulation\<close>

text \<open>
  On finite input points every triangle the loop ever holds, and so every triangle the
  half-plane test is asked about, has finite or symbolic vertices and no symbolic
  point twice.
\<close>

lemma wellformed_super: "wellformed_triangle super_triangle"
  using sym_distinct sym_not_finite
  by (simp add: wellformed_triangle_def super_triangle_sym mk_triangle_def
      symbolic_or_finite_def symbolic_def)

lemma wellformed_new:
  assumes "wellformed_triangle t" and "e \<in> set (edges t)" and "finite_pt p"
  shows "wellformed_triangle (mk_triangle (ea e) (eb e) p)"
  using assms
  by (auto simp: wellformed_triangle_def edges_def mk_edge_def mk_triangle_def
      symbolic_or_finite_def split: if_splits)

lemma insert_point_wellformed:
  assumes "\<forall>t \<in> set T. wellformed_triangle t" and "finite_pt p"
    and "t' \<in> set (insert_point T p)"
  shows "wellformed_triangle t'"
  using insert_point_cases [OF assms(3)] assms(1,2) wellformed_new by blast

lemma foldl_insert_point_wellformed:
  "\<forall>t \<in> set T. wellformed_triangle t \<Longrightarrow> list_all finite_pt ps \<Longrightarrow>
   \<forall>t \<in> set (foldl insert_point T ps). wellformed_triangle t"
proof (induction ps arbitrary: T)
  case Nil
  then show ?case by simp
next
  case (Cons p ps)
  from Cons.prems have "\<forall>t \<in> set (insert_point T p). wellformed_triangle t"
    using insert_point_wellformed [of T p] by simp
  moreover from Cons.prems(2) have "list_all finite_pt ps" by simp
  ultimately show ?case
    using Cons.IH by simp
qed

lemma triangulation_wellformed:
  assumes "list_all finite_pt S"
  shows "\<forall>t \<in> set (foldl insert_point [super_triangle] S). wellformed_triangle t"
  using foldl_insert_point_wellformed [OF _ assms, of "[super_triangle]"] wellformed_super
  by simp

section \<open>Fewer than three points\<close>

text \<open>
  A round lowers the number of symbolic vertices of a triangle by one at most: a new
  triangle keeps two of the three vertices of an old one.
\<close>

lemma symbolic_count_new:
  assumes "e \<in> set (edges t)"
  shows "symbolic_count t \<le> Suc (symbolic_count (mk_triangle (ea e) (eb e) p))"
  using assms by (auto simp: edges_def mk_edge_def mk_triangle_def symbolic_count_def)

lemma insert_point_symbolic_count:
  assumes "\<forall>t \<in> set T. k \<le> symbolic_count t + n" and "t' \<in> set (insert_point T p)"
  shows "k \<le> symbolic_count t' + Suc n"
proof -
  from insert_point_cases [OF assms(2)] show ?thesis
  proof
    assume "t' \<in> set T"
    with assms(1) show ?thesis by fastforce
  next
    assume "\<exists>t \<in> set T. \<exists>e \<in> set (edges t). t' = mk_triangle (ea e) (eb e) p"
    then obtain t e where t: "t \<in> set T" and e: "e \<in> set (edges t)"
      and t': "t' = mk_triangle (ea e) (eb e) p"
      by blast
    from symbolic_count_new [OF e, of p] t' have "symbolic_count t \<le> Suc (symbolic_count t')"
      by simp
    moreover from assms(1) t have "k \<le> symbolic_count t + n" by blast
    ultimately show ?thesis by linarith
  qed
qed

lemma foldl_insert_point_symbolic_count:
  "\<forall>t \<in> set T. k \<le> symbolic_count t + n \<Longrightarrow>
   \<forall>t \<in> set (foldl insert_point T ps). k \<le> symbolic_count t + (n + length ps)"
proof (induction ps arbitrary: T n)
  case Nil
  then show ?case by simp
next
  case (Cons p ps)
  have "\<forall>t \<in> set (insert_point T p). k \<le> symbolic_count t + Suc n"
    using insert_point_symbolic_count [OF Cons.prems] by blast
  from Cons.IH [OF this] show ?case by simp
qed

lemma symbolic_count_super: "symbolic_count super_triangle = 3"
  by (simp add: symbolic_count_def super_triangle_sym symbolic_def mk_triangle_def)

lemma symbolic_count_touches:
  assumes "0 < symbolic_count t"
  shows "touches_super t"
proof -
  from assms obtain v where "v \<in> verts t" and "v \<in> symbolic"
    by (auto simp: symbolic_count_def verts_def split: if_splits)
  then show ?thesis by (rule touches_super_symbolic)
qed

text \<open>With fewer than three points every triangle still has a symbolic vertex.\<close>

lemma triangulate_few_points:
  assumes "length S < 3"
  shows "triangulate S = []"
proof -
  have "\<forall>t \<in> set [super_triangle]. 3 \<le> symbolic_count t + 0"
    by (simp add: symbolic_count_super)
  from foldl_insert_point_symbolic_count [OF this, of S]
  have "\<forall>t \<in> set (foldl insert_point [super_triangle] S). 3 \<le> symbolic_count t + length S"
    by simp
  with assms have "\<forall>t \<in> set (foldl insert_point [super_triangle] S). 0 < symbolic_count t"
    by fastforce
  then have "\<forall>t \<in> set (foldl insert_point [super_triangle] S). touches_super t"
    using symbolic_count_touches by blast
  then show ?thesis
    by (simp add: triangulate_def filter_empty_conv)
qed

section \<open>Runs of the triangulation\<close>

subsection \<open>The run on \<open>lost_points\<close>\<close>

lemmas lost_defs = sym_a_def sym_b_def sym_c_def lost_p1_def lost_p2_def lost_p3_def lost_p4_def

lemma lost_wellformed: "list_all double_point lost_points" "list_all finite_pt lost_points"
  by (simp_all add: lost_points_def lost_defs double_point_def is_double_def mk_point_def
      finite_pt_def dne_def rnd_ev)

lemma lost_step1: "insert_point [super_triangle] lost_p1 = lost_t1"
  by (simp add: arith_ev geo_ev del_ev Let_def lost_defs  lost_t1_def
      cong: let_weak_cong)

lemma lost_step2: "insert_point lost_t1 lost_p2 = lost_t2"
  by (simp add: arith_ev geo_ev del_ev Let_def lost_defs lost_t1_def lost_t2_def
      cong: let_weak_cong)

lemma lost_step3: "insert_point lost_t2 lost_p3 = lost_t3"
  by (simp add: arith_ev geo_ev del_ev Let_def lost_defs lost_t2_def lost_t3_def
      cong: let_weak_cong)

lemma lost_step4: "insert_point lost_t3 lost_p4 = lost_t4"
  by (simp add: arith_ev geo_ev del_ev Let_def lost_defs lost_t3_def lost_t4_def
      cong: let_weak_cong)

lemma lost_strip: "filter (\<lambda>t. \<not> touches_super t) lost_t4 =
    [mk_triangle lost_p1 lost_p2 lost_p4]"
  by (simp add: arith_ev geo_ev del_ev lost_defs lost_t4_def)

lemma lost_triangulate: "triangulate lost_points =
    [mk_triangle lost_p1 lost_p2 lost_p4]"
  by (simp add: triangulate_def lost_points_def lost_step1 lost_step2 lost_step3 lost_step4 lost_strip)

subsection \<open>The run on \<open>hull_points\<close>\<close>

lemmas hull_defs = sym_a_def sym_b_def sym_c_def hull_p1_def hull_p2_def hull_p3_def hull_p4_def

lemma hull_wellformed: "list_all double_point hull_points" "list_all finite_pt hull_points"
  by (simp_all add: hull_points_def hull_defs double_point_def is_double_def mk_point_def
      finite_pt_def dne_def rnd_ev)

lemma hull_step1: "insert_point [super_triangle] hull_p1 = hull_t1"
  by (simp add: arith_ev geo_ev del_ev Let_def hull_defs  hull_t1_def
      cong: let_weak_cong)

lemma hull_step2: "insert_point hull_t1 hull_p2 = hull_t2"
  by (simp add: arith_ev geo_ev del_ev Let_def hull_defs hull_t1_def hull_t2_def
      cong: let_weak_cong)

lemma hull_step3: "insert_point hull_t2 hull_p3 = hull_t3"
  by (simp add: arith_ev geo_ev del_ev Let_def hull_defs hull_t2_def hull_t3_def
      cong: let_weak_cong)

lemma hull_step4: "insert_point hull_t3 hull_p4 = hull_t4"
  by (simp add: arith_ev geo_ev del_ev Let_def hull_defs hull_t3_def hull_t4_def
      cong: let_weak_cong)

lemma hull_strip: "filter (\<lambda>t. \<not> touches_super t) hull_t4 =
    [mk_triangle hull_p1 hull_p2 hull_p4,
     mk_triangle hull_p2 hull_p3 hull_p4,
     mk_triangle hull_p1 hull_p3 hull_p4]"
  by (simp add: arith_ev geo_ev del_ev hull_defs hull_t4_def)

lemma hull_triangulate: "triangulate hull_points =
    [mk_triangle hull_p1 hull_p2 hull_p4,
     mk_triangle hull_p2 hull_p3 hull_p4,
     mk_triangle hull_p1 hull_p3 hull_p4]"
  by (simp add: triangulate_def hull_points_def hull_step1 hull_step2 hull_step3 hull_step4 hull_strip)

subsection \<open>The run on \<open>tiny_points\<close>\<close>

lemmas tiny_defs = sym_a_def sym_b_def sym_c_def tiny_p1_def tiny_p2_def tiny_p3_def

lemma tiny_wellformed: "list_all double_point tiny_points" "list_all finite_pt tiny_points"
  by (simp_all add: tiny_points_def tiny_defs double_point_def is_double_def mk_point_def
      finite_pt_def dne_def rnd_ev)

lemma tiny_step1: "insert_point [super_triangle] tiny_p1 = tiny_t1"
  by (simp add: arith_ev geo_ev del_ev Let_def tiny_defs  tiny_t1_def
      cong: let_weak_cong)

lemma tiny_step2: "insert_point tiny_t1 tiny_p2 = tiny_t2"
  by (simp add: arith_ev geo_ev del_ev Let_def tiny_defs tiny_t1_def tiny_t2_def
      cong: let_weak_cong)

lemma tiny_step3: "insert_point tiny_t2 tiny_p3 = tiny_t3"
  by (simp add: arith_ev geo_ev del_ev Let_def tiny_defs tiny_t2_def tiny_t3_def
      cong: let_weak_cong)

lemma tiny_strip: "filter (\<lambda>t. \<not> touches_super t) tiny_t3 =
    [mk_triangle tiny_p1 tiny_p2 tiny_p3]"
  by (simp add: arith_ev geo_ev del_ev tiny_defs tiny_t3_def)

lemma tiny_triangulate: "triangulate tiny_points =
    [mk_triangle tiny_p1 tiny_p2 tiny_p3]"
  by (simp add: triangulate_def tiny_points_def tiny_step1 tiny_step2 tiny_step3 tiny_strip)

subsection \<open>The run on \<open>slant_points\<close>\<close>

lemmas slant_defs = sym_a_def sym_b_def sym_c_def slant_p1_def slant_p2_def slant_p3_def

lemma slant_wellformed: "list_all double_point slant_points" "list_all finite_pt slant_points"
  by (simp_all add: slant_points_def slant_defs double_point_def is_double_def mk_point_def
      finite_pt_def dne_def rnd_ev)

lemma slant_step1: "insert_point [super_triangle] slant_p1 = slant_t1"
  by (simp add: arith_ev geo_ev del_ev Let_def slant_defs  slant_t1_def
      cong: let_weak_cong)

lemma slant_step2: "insert_point slant_t1 slant_p2 = slant_t2"
  by (simp add: arith_ev geo_ev del_ev Let_def slant_defs slant_t1_def slant_t2_def
      cong: let_weak_cong)

lemma slant_step3: "insert_point slant_t2 slant_p3 = slant_t3"
  by (simp add: arith_ev geo_ev del_ev Let_def slant_defs slant_t2_def slant_t3_def
      cong: let_weak_cong)

lemma slant_strip: "filter (\<lambda>t. \<not> touches_super t) slant_t3 =
    [mk_triangle slant_p1 slant_p2 slant_p3]"
  by (simp add: arith_ev geo_ev del_ev slant_defs slant_t3_def)

lemma slant_triangulate: "triangulate slant_points =
    [mk_triangle slant_p1 slant_p2 slant_p3]"
  by (simp add: triangulate_def slant_points_def slant_step1 slant_step2 slant_step3 slant_strip)

subsection \<open>The run on \<open>upright_points\<close>\<close>

lemmas upright_defs = sym_a_def sym_b_def sym_c_def upright_p1_def upright_p2_def upright_p3_def

lemma upright_wellformed: "list_all double_point upright_points" "list_all finite_pt upright_points"
  by (simp_all add: upright_points_def upright_defs double_point_def is_double_def mk_point_def
      finite_pt_def dne_def rnd_ev)

lemma upright_step1: "insert_point [super_triangle] upright_p1 = upright_t1"
  by (simp add: arith_ev geo_ev del_ev Let_def upright_defs  upright_t1_def
      cong: let_weak_cong)

lemma upright_step2: "insert_point upright_t1 upright_p2 = upright_t2"
  by (simp add: arith_ev geo_ev del_ev Let_def upright_defs upright_t1_def upright_t2_def
      cong: let_weak_cong)

lemma upright_step3: "insert_point upright_t2 upright_p3 = upright_t3"
  by (simp add: arith_ev geo_ev del_ev Let_def upright_defs upright_t2_def upright_t3_def
      cong: let_weak_cong)

lemma upright_strip: "filter (\<lambda>t. \<not> touches_super t) upright_t3 =
    []"
  by (simp add: arith_ev geo_ev del_ev upright_defs upright_t3_def)

lemma upright_triangulate: "triangulate upright_points =
    []"
  by (simp add: triangulate_def upright_points_def upright_step1 upright_step2 upright_step3 upright_strip)

subsection \<open>The run on \<open>thin_points\<close>\<close>

lemmas thin_defs = sym_a_def sym_b_def sym_c_def thin_p1_def thin_p2_def thin_p3_def

lemma thin_wellformed: "list_all double_point thin_points" "list_all finite_pt thin_points"
  by (simp_all add: thin_points_def thin_defs double_point_def is_double_def mk_point_def
      finite_pt_def dne_def rnd_ev)

lemma thin_step1: "insert_point [super_triangle] thin_p1 = thin_t1"
  by (simp add: arith_ev geo_ev del_ev Let_def thin_defs  thin_t1_def
      cong: let_weak_cong)

lemma thin_step2: "insert_point thin_t1 thin_p2 = thin_t2"
  by (simp add: arith_ev geo_ev del_ev Let_def thin_defs thin_t1_def thin_t2_def
      cong: let_weak_cong)

lemma thin_step3: "insert_point thin_t2 thin_p3 = thin_t3"
  by (simp add: arith_ev geo_ev del_ev Let_def thin_defs thin_t2_def thin_t3_def
      cong: let_weak_cong)

lemma thin_strip: "filter (\<lambda>t. \<not> touches_super t) thin_t3 =
    []"
  by (simp add: arith_ev geo_ev del_ev thin_defs thin_t3_def)

lemma thin_triangulate: "triangulate thin_points =
    []"
  by (simp add: triangulate_def thin_points_def thin_step1 thin_step2 thin_step3 thin_strip)

subsection \<open>The run on \<open>unit_points\<close>\<close>

lemmas unit_defs = sym_a_def sym_b_def sym_c_def unit_p1_def unit_p2_def unit_p3_def

lemma unit_wellformed: "list_all double_point unit_points" "list_all finite_pt unit_points"
  by (simp_all add: unit_points_def unit_defs double_point_def is_double_def mk_point_def
      finite_pt_def dne_def rnd_ev)

lemma unit_step1: "insert_point [super_triangle] unit_p1 = unit_t1"
  by (simp add: arith_ev geo_ev del_ev Let_def unit_defs  unit_t1_def
      cong: let_weak_cong)

lemma unit_step2: "insert_point unit_t1 unit_p2 = unit_t2"
  by (simp add: arith_ev geo_ev del_ev Let_def unit_defs unit_t1_def unit_t2_def
      cong: let_weak_cong)

lemma unit_step3: "insert_point unit_t2 unit_p3 = unit_t3"
  by (simp add: arith_ev geo_ev del_ev Let_def unit_defs unit_t2_def unit_t3_def
      cong: let_weak_cong)

lemma unit_strip: "filter (\<lambda>t. \<not> touches_super t) unit_t3 =
    [mk_triangle unit_p1 unit_p2 unit_p3]"
  by (simp add: arith_ev geo_ev del_ev unit_defs unit_t3_def)

lemma unit_triangulate: "triangulate unit_points =
    [mk_triangle unit_p1 unit_p2 unit_p3]"
  by (simp add: triangulate_def unit_points_def unit_step1 unit_step2 unit_step3 unit_strip)

subsection \<open>The run on \<open>horizontal_points\<close>\<close>

lemmas horizontal_defs = sym_a_def sym_b_def sym_c_def horizontal_p1_def horizontal_p2_def horizontal_p3_def

lemma horizontal_wellformed: "list_all double_point horizontal_points" "list_all finite_pt horizontal_points"
  by (simp_all add: horizontal_points_def horizontal_defs double_point_def is_double_def mk_point_def
      finite_pt_def dne_def rnd_ev)

lemma horizontal_step1: "insert_point [super_triangle] horizontal_p1 = horizontal_t1"
  by (simp add: arith_ev geo_ev del_ev Let_def horizontal_defs  horizontal_t1_def
      cong: let_weak_cong)

lemma horizontal_step2: "insert_point horizontal_t1 horizontal_p2 = horizontal_t2"
  by (simp add: arith_ev geo_ev del_ev Let_def horizontal_defs horizontal_t1_def horizontal_t2_def
      cong: let_weak_cong)

lemma horizontal_step3: "insert_point horizontal_t2 horizontal_p3 = horizontal_t3"
  by (simp add: arith_ev geo_ev del_ev Let_def horizontal_defs horizontal_t2_def horizontal_t3_def
      cong: let_weak_cong)

lemma horizontal_strip: "filter (\<lambda>t. \<not> touches_super t) horizontal_t3 =
    []"
  by (simp add: arith_ev geo_ev del_ev horizontal_defs horizontal_t3_def)

lemma horizontal_triangulate: "triangulate horizontal_points =
    []"
  by (simp add: triangulate_def horizontal_points_def horizontal_step1 horizontal_step2 horizontal_step3 horizontal_strip)

subsection \<open>The run on \<open>nearly_points\<close>\<close>

lemmas nearly_defs = sym_a_def sym_b_def sym_c_def nearly_p1_def nearly_p2_def nearly_p3_def

lemma nearly_wellformed: "list_all double_point nearly_points" "list_all finite_pt nearly_points"
  by (simp_all add: nearly_points_def nearly_defs double_point_def is_double_def mk_point_def
      finite_pt_def dne_def rnd_ev)

lemma nearly_step1: "insert_point [super_triangle] nearly_p1 = nearly_t1"
  by (simp add: arith_ev geo_ev del_ev Let_def nearly_defs  nearly_t1_def
      cong: let_weak_cong)

lemma nearly_step2: "insert_point nearly_t1 nearly_p2 = nearly_t2"
  by (simp add: arith_ev geo_ev del_ev Let_def nearly_defs nearly_t1_def nearly_t2_def
      cong: let_weak_cong)

lemma nearly_step3: "insert_point nearly_t2 nearly_p3 = nearly_t3"
  by (simp add: arith_ev geo_ev del_ev Let_def nearly_defs nearly_t2_def nearly_t3_def
      cong: let_weak_cong)

lemma nearly_strip: "filter (\<lambda>t. \<not> touches_super t) nearly_t3 =
    [mk_triangle nearly_p1 nearly_p2 nearly_p3]"
  by (simp add: arith_ev geo_ev del_ev nearly_defs nearly_t3_def)

lemma nearly_triangulate: "triangulate nearly_points =
    [mk_triangle nearly_p1 nearly_p2 nearly_p3]"
  by (simp add: triangulate_def nearly_points_def nearly_step1 nearly_step2 nearly_step3 nearly_strip)

subsection \<open>The run on \<open>vertical_points\<close>\<close>

lemmas vertical_defs = sym_a_def sym_b_def sym_c_def vertical_p1_def vertical_p2_def vertical_p3_def

lemma vertical_wellformed: "list_all double_point vertical_points" "list_all finite_pt vertical_points"
  by (simp_all add: vertical_points_def vertical_defs double_point_def is_double_def mk_point_def
      finite_pt_def dne_def rnd_ev)

lemma vertical_step1: "insert_point [super_triangle] vertical_p1 = vertical_t1"
  by (simp add: arith_ev geo_ev del_ev Let_def vertical_defs  vertical_t1_def
      cong: let_weak_cong)

lemma vertical_step2: "insert_point vertical_t1 vertical_p2 = vertical_t2"
  by (simp add: arith_ev geo_ev del_ev Let_def vertical_defs vertical_t1_def vertical_t2_def
      cong: let_weak_cong)

lemma vertical_step3: "insert_point vertical_t2 vertical_p3 = vertical_t3"
  by (simp add: arith_ev geo_ev del_ev Let_def vertical_defs vertical_t2_def vertical_t3_def
      cong: let_weak_cong)

lemma vertical_strip: "filter (\<lambda>t. \<not> touches_super t) vertical_t3 =
    []"
  by (simp add: arith_ev geo_ev del_ev vertical_defs vertical_t3_def)

lemma vertical_triangulate: "triangulate vertical_points =
    []"
  by (simp add: triangulate_def vertical_points_def vertical_step1 vertical_step2 vertical_step3 vertical_strip)

section \<open>The claims\<close>

subsection \<open>C1: the Delaunay property\<close>

text \<open>
  Claim C1 says that no input point lies strictly inside the circumcircle of a returned
  triangle, that is, \<open>t.circumcircle().contains(p)\<close> is false for every returned
  triangle \<open>t\<close> and every input point \<open>p\<close>. The code breaks it on \<open>lost_points\<close>: the
  third point \<open>(1,1)\<close> is the midpoint of the first two, \<open>(0,0)\<close> and \<open>(2,2)\<close>. On the
  line through them the strict half-plane tests of the two triangles on that edge fail,
  and the point is outside the half-planes of the other three triangles; so its bad set
  is empty and the point is dropped (\<open>lost_step3\<close>). The triangle returned after the
  fourth point, \<open>(0,0), (2,2), (2,-2)\<close>, is valid, and its circumcircle, of centre \<open>(2,0)\<close>
  and squared radius 4, contains \<open>(1,1)\<close> at the squared distance 2.
\<close>

theorem triangulate_lost_breaks_delaunay:
  "list_all double_point lost_points \<and> list_all finite_pt lost_points
 \<and> triangulate lost_points = [mk_triangle lost_p1 lost_p2 lost_p4]
 \<and> valid (mk_triangle lost_p1 lost_p2 lost_p4)
 \<and> circumcircle (mk_triangle lost_p1 lost_p2 lost_p4) = mk_circle (mk_point (Fin 2) (Fin 0)) (Fin 4)
 \<and> lost_p3 \<in> set lost_points
 \<and> contains (circumcircle (mk_triangle lost_p1 lost_p2 lost_p4)) lost_p3"
proof -
  have v: "valid (mk_triangle lost_p1 lost_p2 lost_p4)"
    by (simp add: arith_ev geo_ev lost_defs)
  have c: "circumcircle (mk_triangle lost_p1 lost_p2 lost_p4)
      = mk_circle (mk_point (Fin 2) (Fin 0)) (Fin 4)"
    by (simp add: arith_ev geo_ev lost_defs Let_def cong: let_weak_cong)
  have "contains (mk_circle (mk_point (Fin 2) (Fin 0)) (Fin 4)) lost_p3"
    by (simp add: arith_ev geo_ev lost_defs Let_def cong: let_weak_cong)
  with v c show ?thesis
    by (simp add: lost_wellformed lost_triangulate) (simp add: lost_points_def)
qed

subsection \<open>C2: the circle of an invalid triangle\<close>

text \<open>
  Claim C2 says that the circumcircle of an invalid triangle is centred at the origin
  with infinite radius, and that it contains no finite point by the ordinary test. The
  second half fails: the test compares the squared distance with the radius, and every
  finite squared distance is below infinity. The flat triangle \<open>(0,0), (1,0), (2,0)\<close> is
  invalid and its circle contains the point \<open>(1,1)\<close>.
\<close>

theorem sentinel_contains_query_point:
  "\<not> valid flat_triangle \<and> is_finite (px query_point) \<and> is_finite (py query_point)
 \<and> contains (circumcircle flat_triangle) query_point"
  by (simp add: flat_triangle_def query_point_def is_finite_def arith_ev geo_ev Let_def
      cong: let_weak_cong)

text \<open>
  Claim C2 as amended: for every invalid triangle the circumcircle is centred at the
  origin with infinite radius, so that \<open>circle::infinite\<close> holds of it and the
  triangulation asks the half-plane test instead of \<open>circle::contains\<close>; the ordinary
  test on it is not false: for a point of finite coordinates it is true unless the
  squared distance from the origin overflows.
\<close>

theorem circumcircle_invalid_sentinel:
  assumes "\<not> valid t"
  shows "circumcircle t = mk_circle (mk_point (Fin 0) (Fin 0)) PInf
       \<and> infinite_circle (circumcircle t)
       \<and> bad_triangle p t = halfplane_contains t p
       \<and> (is_finite (px p) \<and> is_finite (py p) \<longrightarrow>
            contains (circumcircle t) p = (distance_squared p origin \<noteq> PInf))"
proof -
  have c: "circumcircle t = mk_circle origin PInf"
    using assms by (rule circumcircle_invalid)
  have i: "infinite_circle (mk_circle origin PInf)"
    by (simp add: infinite_circle_def mk_circle_def)
  have "contains (mk_circle origin PInf) p = dlt (distance_squared p origin) PInf"
    by (simp add: contains_distance mk_circle_def)
  then have "is_finite (px p) \<and> is_finite (py p) \<longrightarrow>
      contains (mk_circle origin PInf) p = (distance_squared p origin \<noteq> PInf)"
    by (simp add: distance_squared_origin sum_squares_finite)
  with c i show ?thesis
    by (simp add: bad_triangle_def origin_def)
qed

theorem circumcircle_invalid_sentinel_witness:
  "\<not> valid super_triangle
 \<and> circumcircle super_triangle = mk_circle (mk_point (Fin 0) (Fin 0)) PInf
 \<and> infinite_circle (circumcircle super_triangle)
 \<and> bad_triangle query_point super_triangle = halfplane_contains super_triangle query_point
 \<and> contains (circumcircle super_triangle) query_point"
proof -
  have v: "\<not> valid super_triangle"
    by (simp add: super_triangle_def valid_def finite_pt_def mk_triangle_def mk_point_def
        dne_def)
  have f: "is_finite (px query_point) \<and> is_finite (py query_point)"
    by (simp add: query_point_def is_finite_def mk_point_def)
  have d: "distance_squared query_point origin \<noteq> PInf"
    by (simp add: query_point_def origin_def arith_ev geo_ev Let_def cong: let_weak_cong)
  from circumcircle_invalid_sentinel [OF v, of query_point] f d v show ?thesis
    by blast
qed

subsection \<open>C3: the returned triangles\<close>

text \<open>
  Claim C3 says that every returned triangle is valid: finite vertices and an area
  above machine epsilon. The check of the repository's tests requires as much
  (\<open>valid_triangulation_valid\<close>). The code breaks it on \<open>hull_points\<close>: the fourth point
  \<open>(1,0)\<close> is inside the circumcircle of the triangle of the first three and on its lower
  edge, from \<open>(0,0)\<close> to \<open>(2,0)\<close>. The triangle beyond that edge has a vertex at infinity,
  its half-plane test is strict and fails, so the edge stays on the polygon and is
  joined to the point. The flat triangle \<open>(0,0), (2,0), (1,0)\<close>, of area 0, is returned;
  it is not valid, and the check of the tests fails on the input.
\<close>

theorem triangulate_hull_invalid:
  "list_all double_point hull_points \<and> list_all finite_pt hull_points
 \<and> mk_triangle hull_p1 hull_p2 hull_p4 \<in> set (triangulate hull_points)
 \<and> exact_area (mk_triangle hull_p1 hull_p2 hull_p4) = 0
 \<and> \<not> valid (mk_triangle hull_p1 hull_p2 hull_p4)
 \<and> \<not> valid_triangulation hull_points"
proof -
  have m: "mk_triangle hull_p1 hull_p2 hull_p4 \<in> set (triangulate hull_points)"
    by (simp add: hull_triangulate)
  have e: "exact_area (mk_triangle hull_p1 hull_p2 hull_p4) = 0"
    by (simp add: exact_area_def mk_triangle_def mk_point_def hull_defs)
  have v: "\<not> valid (mk_triangle hull_p1 hull_p2 hull_p4)"
    by (simp add: arith_ev geo_ev hull_defs)
  have "contains (circumcircle (mk_triangle hull_p1 hull_p2 hull_p4)) hull_p3"
    by (simp add: arith_ev geo_ev hull_defs Let_def cong: let_weak_cong)
  moreover have "hull_p3 \<in> set hull_points"
    by (simp add: hull_points_def)
  ultimately have c: "\<not> valid_triangulation hull_points"
    using m unfolding valid_triangulation_def list_all_iff by blast
  from m e v c show ?thesis
    by (simp add: hull_wellformed)
qed

text \<open>
  A triangle that is not flat is lost to the test of the area as well:
  \<open>triangle::valid\<close> compares the area with epsilon itself, whatever the size of the
  input. The right triangle with legs \<open>2\<^sup>-\<^sup>3\<^sup>0\<close> is returned, it is not valid, and the check
  of the tests fails on it.
\<close>

lemma triangulate_tiny_invalid:
  "list_all finite_pt tiny_points
 \<and> triangulate tiny_points = [mk_triangle tiny_p1 tiny_p2 tiny_p3]
 \<and> \<not> valid (mk_triangle tiny_p1 tiny_p2 tiny_p3)
 \<and> \<not> valid_triangulation tiny_points"
proof -
  have v: "\<not> valid (mk_triangle tiny_p1 tiny_p2 tiny_p3)"
    by (simp add: arith_ev geo_ev tiny_defs)
  have "contains (circumcircle (mk_triangle tiny_p1 tiny_p2 tiny_p3)) tiny_p1"
    by (simp add: arith_ev geo_ev tiny_defs Let_def cong: let_weak_cong)
  then have "\<not> valid_triangulation tiny_points"
    by (simp add: valid_triangulation_def tiny_triangulate) (simp add: tiny_points_def)
  with v show ?thesis
    by (simp add: tiny_wellformed tiny_triangulate)
qed

text \<open>
  The other half of the validity holds: when every input point is finite, so are the
  three vertices of every returned triangle.
\<close>

lemma triangulate_vertices_finite:
  assumes "list_all finite_pt S" and "t \<in> set (triangulate S)"
  shows "finite_pt (ta t) \<and> finite_pt (tb t) \<and> finite_pt (tc t)"
proof -
  from triangulate_verts(1) [OF assms(2)] have "{ta t, tb t, tc t} \<subseteq> set S"
    by (simp add: verts_def)
  with assms(1) show ?thesis
    by (simp add: list_all_iff)
qed

subsection \<open>C4: the vertices are input points\<close>

text \<open>
  Claim C4: every vertex of every returned triangle is a point of the input sequence,
  and no returned triangle has a vertex equal to a vertex of the super-triangle.
\<close>

theorem triangulate_vertex_closure:
  assumes "t \<in> set (triangulate S)"
  shows "ta t \<in> set S \<and> tb t \<in> set S \<and> tc t \<in> set S
       \<and> \<not> has_vertex t (ta super_triangle)
       \<and> \<not> has_vertex t (tb super_triangle)
       \<and> \<not> has_vertex t (tc super_triangle)"
  using triangulate_verts [OF assms]
  by (simp add: verts_def touches_super_def)

theorem triangulate_vertex_closure_witness:
  "mk_triangle unit_p1 unit_p2 unit_p3 \<in> set (triangulate unit_points)
 \<and> unit_p1 \<in> set unit_points \<and> unit_p2 \<in> set unit_points \<and> unit_p3 \<in> set unit_points
 \<and> \<not> has_vertex (mk_triangle unit_p1 unit_p2 unit_p3) (ta super_triangle)"
proof -
  have m: "mk_triangle unit_p1 unit_p2 unit_p3 \<in> set (triangulate unit_points)"
    by (simp add: unit_triangulate)
  from triangulate_vertex_closure [OF m] m show ?thesis
    by (simp add: mk_triangle_def)
qed

subsection \<open>C5: few points, collinear points\<close>

text \<open>
  Claim C5 says that fewer than three points, and points of one line, give no triangle.
  The first half holds (\<open>triangulate_few_points\<close>). The second fails on \<open>slant_points\<close>,
  three points of the line \<open>x - 3 y = -4\<close>: the slope of the first two is one third,
  rounded, and for the third point the rounded difference \<open>2 - 2 m\<close> is above the
  intercept \<open>4 m\<close>, so the half-plane test succeeds and the three points are returned as
  a triangle.
\<close>

theorem triangulate_slant_collinear:
  "list_all double_point slant_points \<and> list_all finite_pt slant_points
 \<and> exact_area (mk_triangle slant_p1 slant_p2 slant_p3) = 0
 \<and> triangulate slant_points = [mk_triangle slant_p1 slant_p2 slant_p3]"
proof -
  have "exact_area (mk_triangle slant_p1 slant_p2 slant_p3) = 0"
    by (simp add: exact_area_def mk_triangle_def mk_point_def slant_defs)
  then show ?thesis
    by (simp add: slant_wellformed slant_triangulate)
qed

subsection \<open>C6: the radius is the least squared distance\<close>

text \<open>
  Claim C6: for every valid triangle the radius of the circumcircle is the minimum, by
  \<open>std::min\<close>, of the three squared distances from the computed centre to the vertices,
  and no vertex of the triangle is contained in the circumcircle.
\<close>

theorem circumcircle_min_radius:
  assumes "valid t"
  shows "radius (circumcircle t) =
           dmin (dmin (distance_squared (ta t) (center (circumcircle t)))
                      (distance_squared (tb t) (center (circumcircle t))))
                (distance_squared (tc t) (center (circumcircle t)))
       \<and> \<not> contains (circumcircle t) (ta t)
       \<and> \<not> contains (circumcircle t) (tb t)
       \<and> \<not> contains (circumcircle t) (tc t)"
  using circumcircle_valid_radius [OF assms]
  by (simp add: contains_distance dlt_dmin3_a dlt_dmin3_b dlt_dmin3_c)

theorem circumcircle_min_radius_witness:
  "valid (mk_triangle hull_p1 hull_p2 hull_p3)
 \<and> \<not> contains (circumcircle (mk_triangle hull_p1 hull_p2 hull_p3)) hull_p1
 \<and> \<not> contains (circumcircle (mk_triangle hull_p1 hull_p2 hull_p3)) hull_p2
 \<and> \<not> contains (circumcircle (mk_triangle hull_p1 hull_p2 hull_p3)) hull_p3"
proof -
  have v: "valid (mk_triangle hull_p1 hull_p2 hull_p3)"
    by (simp add: arith_ev geo_ev hull_defs)
  from circumcircle_min_radius [OF v] v show ?thesis
    by (simp add: mk_triangle_def)
qed

subsection \<open>C7: the half-plane test follows the case analysis\<close>

text \<open>
  Claim C7: for a triangle whose vertices are finite points or symbolic points, no
  symbolic point twice, and for every query point, \<open>halfplane_contains\<close> returns what
  the case analysis of section 4.2 of the specification gives. These are the triangles
  of the triangulation of finite points (\<open>triangulation_wellformed\<close>).
\<close>

theorem halfplane_contains_spec:
  assumes "wellformed_triangle t"
  shows "halfplane_contains t p = spec_halfplane t p"
proof -
  from assms have d: "distinct (filter (\<lambda>v. \<not> finite_pt v) [ta t, tb t, tc t])"
    by (simp add: wellformed_triangle_def)
  from assms have inf: "\<not> finite_pt (ta t) \<Longrightarrow> ta t \<in> symbolic"
    "\<not> finite_pt (tb t) \<Longrightarrow> tb t \<in> symbolic" "\<not> finite_pt (tc t) \<Longrightarrow> tc t \<in> symbolic"
    by (auto simp: wellformed_triangle_def symbolic_or_finite_def)
  show ?thesis
  proof (cases "finite_pt (ta t)"; cases "finite_pt (tb t)"; cases "finite_pt (tc t)")
    assume "finite_pt (ta t)" "finite_pt (tb t)" "finite_pt (tc t)"
    then show ?thesis
      by (simp add: halfplane_contains_def spec_halfplane_def finite_points_def)
  next
    assume "finite_pt (ta t)" "finite_pt (tb t)" "\<not> finite_pt (tc t)"
    with inf show ?thesis
      by (simp add: halfplane_contains_def spec_halfplane_def finite_points_def
          halfplane_one_infinite_spec)
  next
    assume "finite_pt (ta t)" "\<not> finite_pt (tb t)" "finite_pt (tc t)"
    with inf show ?thesis
      by (simp add: halfplane_contains_def spec_halfplane_def finite_points_def
          halfplane_one_infinite_spec)
  next
    assume "\<not> finite_pt (ta t)" "finite_pt (tb t)" "finite_pt (tc t)"
    with inf show ?thesis
      by (simp add: halfplane_contains_def spec_halfplane_def finite_points_def
          halfplane_one_infinite_spec)
  next
    assume "finite_pt (ta t)" "\<not> finite_pt (tb t)" "\<not> finite_pt (tc t)"
    with inf d show ?thesis
      by (simp add: halfplane_contains_def spec_halfplane_def finite_points_def
          halfplane_two_infinite_spec)
  next
    assume "\<not> finite_pt (ta t)" "finite_pt (tb t)" "\<not> finite_pt (tc t)"
    with inf d show ?thesis
      by (simp add: halfplane_contains_def spec_halfplane_def finite_points_def
          halfplane_two_infinite_spec)
  next
    assume "\<not> finite_pt (ta t)" "\<not> finite_pt (tb t)" "finite_pt (tc t)"
    with inf d show ?thesis
      by (simp add: halfplane_contains_def spec_halfplane_def finite_points_def
          halfplane_two_infinite_spec)
  next
    assume "\<not> finite_pt (ta t)" "\<not> finite_pt (tb t)" "\<not> finite_pt (tc t)"
    then show ?thesis
      by (simp add: halfplane_contains_def spec_halfplane_def finite_points_def)
  qed
qed

theorem halfplane_contains_spec_witness:
  "wellformed_triangle open_triangle
 \<and> halfplane_contains open_triangle query_point
 \<and> spec_halfplane open_triangle query_point"
proof -
  have w: "wellformed_triangle open_triangle"
    by (simp add: wellformed_triangle_def open_triangle_def symbolic_or_finite_def
        symbolic_def sym_b_def mk_triangle_def mk_point_def finite_pt_def dne_def)
  have h: "halfplane_contains open_triangle query_point"
    by (simp add: open_triangle_def query_point_def sym_b_def arith_ev geo_ev del_ev
        Let_def cong: let_weak_cong)
  from halfplane_contains_spec [OF w, of query_point] w h show ?thesis
    by simp
qed

subsection \<open>C8: three points that are not collinear\<close>

text \<open>
  Claim C8 says that three finite points of non-zero signed area give exactly one
  triangle. The code breaks it on \<open>upright_points\<close>, the unit right triangle with the
  vertical leg first: the slope of the first two points, \<open>(0,0)\<close> and \<open>(0,1)\<close>, is
  infinite, the intercept \<open>0 - \<infinity> * 0\<close> of their line is a NaN, and every comparison with
  it fails. For the third point no triangle on the edge of the first two is bad, the
  triangle of the three points is never made, and nothing is returned. The same points
  with the horizontal leg first, \<open>unit_points\<close>, give their triangle
  (\<open>unit_triangulate\<close>).
\<close>

theorem triangulate_upright_empty:
  "list_all double_point upright_points \<and> list_all finite_pt upright_points
 \<and> exact_area (mk_triangle upright_p1 upright_p2 upright_p3) = - (1 / 2)
 \<and> valid (mk_triangle upright_p1 upright_p2 upright_p3)
 \<and> triangulate upright_points = []"
proof -
  have "exact_area (mk_triangle upright_p1 upright_p2 upright_p3) = - (1 / 2)"
    by (simp add: exact_area_def mk_triangle_def mk_point_def upright_defs)
  moreover have "valid (mk_triangle upright_p1 upright_p2 upright_p3)"
    by (simp add: arith_ev geo_ev upright_defs)
  ultimately show ?thesis
    by (simp add: upright_wellformed upright_triangulate)
qed

text \<open>
  Rounding loses a thin triangle too. The triangle of \<open>thin_points\<close> has the area \<open>2\<^sup>-\<^sup>5\<^sup>1\<close>
  and is valid; the slope of the first two points is \<open>2\<^sup>-\<^sup>5\<^sup>6\<close>, and for the third point
  \<open>1 + 2\<^sup>-\<^sup>5\<^sup>4\<close> rounds to the intercept 1, so that no half-plane test succeeds on either
  side of the edge.
\<close>

lemma triangulate_thin_empty:
  "list_all double_point thin_points \<and> list_all finite_pt thin_points
 \<and> exact_area (mk_triangle thin_p1 thin_p2 thin_p3) = 1 / 2 ^ 51
 \<and> valid (mk_triangle thin_p1 thin_p2 thin_p3)
 \<and> triangulate thin_points = []"
proof -
  have "exact_area (mk_triangle thin_p1 thin_p2 thin_p3) = 1 / 2 ^ 51"
    by (simp add: exact_area_def mk_triangle_def mk_point_def thin_defs)
  moreover have "valid (mk_triangle thin_p1 thin_p2 thin_p3)"
    by (simp add: arith_ev geo_ev thin_defs)
  ultimately show ?thesis
    by (simp add: thin_wellformed thin_triangulate)
qed

subsection \<open>C9: the half-plane test on finite triangles\<close>

text \<open>
  Claim C9: for a triangle whose three vertices are finite, flat or not, and for every
  query point, \<open>halfplane_contains\<close> returns false; so a triangle it reports has a
  vertex that is not finite.
\<close>

theorem halfplane_contains_all_finite:
  assumes "finite_pt (ta t)" and "finite_pt (tb t)" and "finite_pt (tc t)"
  shows "\<not> halfplane_contains t p"
  using assms by (simp add: halfplane_contains_def finite_points_def)

theorem halfplane_contains_all_finite_witness:
  "finite_pt (ta flat_triangle) \<and> finite_pt (tb flat_triangle) \<and> finite_pt (tc flat_triangle)
 \<and> infinite_circle (circumcircle flat_triangle)
 \<and> \<not> halfplane_contains flat_triangle query_point"
proof -
  have f: "finite_pt (ta flat_triangle)" "finite_pt (tb flat_triangle)"
    "finite_pt (tc flat_triangle)"
    by (simp_all add: flat_triangle_def mk_triangle_def mk_point_def finite_pt_def dne_def)
  have i: "infinite_circle (circumcircle flat_triangle)"
    by (simp add: flat_triangle_def arith_ev geo_ev)
  from halfplane_contains_all_finite [OF f, of query_point] f i show ?thesis
    by simp
qed

subsection \<open>C10: equality of points\<close>

text \<open>
  Claim C10 says that \<open>point::operator==\<close> is reflexive and symmetric for all points and
  not transitive. It is not reflexive on a point with a NaN coordinate: both the exact
  comparison and the comparison of the difference with epsilon fail on a NaN.
\<close>

theorem point_eq_nan_not_reflexive: "\<not> point_eq nan_point nan_point"
  by (simp add: nan_point_def point_eq_def mk_point_def dle_def dsub_def)

text \<open>Three points on a line, each one machine epsilon from the next.\<close>

lemma eq_points_double: "double_point eq_p" "double_point eq_q" "double_point eq_r"
  by (simp_all add: double_point_def is_double_def eq_p_def eq_q_def eq_r_def mk_point_def
      rnd_ev)

lemma eq_chain: "point_eq eq_p eq_q" "point_eq eq_q eq_r" "\<not> point_eq eq_p eq_r"
  by (simp_all add: eq_p_def eq_q_def eq_r_def arith_ev geo_ev)

text \<open>
  Claim C10 as amended: \<open>point::operator==\<close> is reflexive on every point that has no NaN
  coordinate (infinite coordinates included), symmetric on all points, and not
  transitive: there are points \<open>p\<close>, \<open>q\<close>, \<open>r\<close> with \<open>p == q\<close> and \<open>q == r\<close> but not
  \<open>p == r\<close>, one machine epsilon apart each.
\<close>

theorem point_eq_relation:
  "(\<forall>p. \<not> is_nan (px p) \<and> \<not> is_nan (py p) \<longrightarrow> point_eq p p)
 \<and> (\<forall>p q. double_point p \<and> double_point q \<longrightarrow> point_eq p q = point_eq q p)
 \<and> (\<exists>p q r. double_point p \<and> double_point q \<and> double_point r
        \<and> point_eq p q \<and> point_eq q r \<and> \<not> point_eq p r)"
  using point_eq_refl point_eq_sym eq_points_double eq_chain by blast

theorem point_eq_relation_witness:
  "point_eq sym_a sym_a \<and> point_eq eq_q eq_q \<and> point_eq eq_p eq_q = point_eq eq_q eq_p"
proof -
  have n: "\<not> is_nan (px sym_a) \<and> \<not> is_nan (py sym_a)" "\<not> is_nan (px eq_q) \<and> \<not> is_nan (py eq_q)"
    by (simp_all add: sym_a_def eq_q_def mk_point_def)
  from point_eq_relation n eq_points_double show ?thesis
    by blast
qed

end
